theory Spec2Isabelle
  imports Complex_Main "HOL-Library.Char_ord" "HOL-Library.List_Lexorder" "HOL-Library.Product_Lexorder"
begin

section \<open>Data model\<close>

text \<open>
  The types of \<^verbatim>\<open>ComplianceFinding\<close> and \<^verbatim>\<open>AnalysisResult\<close> as the TypeScript
  declares them. A JavaScript \<^verbatim>\<open>number\<close> that counts something is an \<open>int\<close>; a
  \<^verbatim>\<open>Date\<close> is its millisecond timestamp. An optional property
  (\<^verbatim>\<open>line?: number\<close>) can be missing (\<open>Undefined\<close>), can hold \<^verbatim>\<open>null\<close> at run time
  (the casts in \<^verbatim>\<open>mapToFinding\<close> do not check), or can hold a value.
\<close>

datatype finding_type = Security | License | Quality | Custom

datatype severity = Critical | High | Medium | Low | Info

datatype analysis_status = Pending | Analyzing | Completed | Failed

datatype 'a optional = Undefined | Null | Val 'a

record ComplianceFinding =
  finding_id :: string
  ftype :: finding_type
  severity :: severity
  message :: string
  file' :: string
  line :: "int optional"
  column :: "int optional"
  code :: "string optional"
  fixSuggestion :: "string optional"
  ruleId :: string
  ruleName :: string

record Stats =
  totalFiles :: int
  totalFindings :: int
  critical :: int
  high :: int
  medium :: int
  low :: int
  info :: int

record AnalysisResult =
  result_id :: string
  prNumber :: int
  repoFullName :: string
  status :: analysis_status
  findings :: "ComplianceFinding list"
  analyzedAt :: int
  duration :: int
  stats :: Stats


section \<open>The database\<close>

text \<open>
  Errors are values. A database error carries the SQLSTATE in \<^verbatim>\<open>code\<close>
  (\<^verbatim>\<open>getStats\<close> reads \<^verbatim>\<open>dbError?.code\<close>); an \<^verbatim>\<open>Error\<close> made by the code itself has
  none.
\<close>

datatype error = Error (err_code: "string option") (err_message: string)

definition unique_violation :: error where
  "unique_violation = Error (Some ''23505'') ''duplicate key value violates unique constraint''"

definition foreign_key_violation :: error where
  "foreign_key_violation = Error (Some ''23503'') ''insert violates foreign key constraint''"

definition in_failed_sql_transaction :: error where
  "in_failed_sql_transaction = Error (Some ''25P02'') ''current transaction is aborted''"

definition syntax_error_at_column :: error where
  "syntax_error_at_column = Error (Some ''42601'') ''syntax error at or near column''"

definition undefined_table :: error where
  "undefined_table = Error (Some ''42P01'') ''relation analyses does not exist''"

definition connection_refused :: error where
  "connection_refused = Error (Some ''ECONNREFUSED'') ''connect ECONNREFUSED''"

text \<open>
  One row of each table, with the columns the two \<^verbatim>\<open>INSERT\<close> statements name. A nullable
  column is an \<open>option\<close> (\<open>None\<close> is SQL \<^verbatim>\<open>NULL\<close>). The column types are declared in
  \<^verbatim>\<open>schema.sql\<close>, which is not among the source files: every column is taken to hold the
  value it is given.
\<close>

record analysis_row =
  a_id :: string
  a_pr_number :: int
  a_repo_full_name :: string
  a_status :: analysis_status
  a_analyzed_at :: int
  a_duration :: int
  a_total_files :: int
  a_total_findings :: int
  a_critical_count :: int
  a_high_count :: int
  a_medium_count :: int
  a_low_count :: int
  a_info_count :: int

record finding_row =
  f_id :: string
  f_analysis_id :: string
  f_type :: finding_type
  f_severity :: severity
  f_message :: string
  f_file :: string
  f_line :: "int option"
  f_column :: "int option"
  f_code :: "string option"
  f_fix_suggestion :: "string option"
  f_rule_id :: string
  f_rule_name :: string

text \<open>The committed contents of the two tables, each in insertion order.\<close>

record db_state =
  analyses_table :: "analysis_row list"
  findings_table :: "finding_row list"

definition empty_db :: db_state where
  "empty_db = \<lparr> analyses_table = [], findings_table = [] \<rparr>"

text \<open>
  Modelled from the spec: \<^verbatim>\<open>schema.sql\<close> is not among the source files. The spec's
  persistence boundary has "one row per analysis (keyed by id ...)": an insert of an analysis
  id that is already there is a unique violation.
\<close>

definition insert_analysis_row :: "analysis_row \<Rightarrow> db_state \<Rightarrow> error + db_state" where
  "insert_analysis_row row db =
     (if a_id row \<in> set (map a_id (analyses_table db)) then Inl unique_violation
      else Inr (db\<lparr>analyses_table := analyses_table db @ [row]\<rparr>))"

text \<open>
  A pooled client (\<^verbatim>\<open>PoolClient\<close>): the committed store every connection sees, and this
  connection's transaction. Outside a transaction a statement commits by itself; inside one
  it works on a private copy that \<^verbatim>\<open>COMMIT\<close> publishes and \<^verbatim>\<open>ROLLBACK\<close> drops; after a
  failed statement the transaction is aborted, and only \<^verbatim>\<open>ROLLBACK\<close> (or a
  \<^verbatim>\<open>COMMIT\<close>, which then rolls back) ends it.

  The statement \<^verbatim>\<open>INSERT INTO findings (id, analysis_id, type, severity, message, file,
  line, column, code, ...)\<close> names the column \<^verbatim>\<open>column\<close> without quotes.
  \<^verbatim>\<open>COLUMN\<close> is a reserved word of PostgreSQL, so the statement does not parse: whatever
  the schema declares and whatever the parameters are, the server answers SQLSTATE 42601 and
  writes nothing, and a transaction that was open is aborted.
\<close>

datatype txn_state = Idle | Active db_state | Aborted

record conn =
  store :: db_state
  txn :: txn_state

datatype statement =
  Begin | InsertAnalysis analysis_row | InsertFinding finding_row | Commit | Rollback

definition run_insert :: "(db_state \<Rightarrow> error + db_state) \<Rightarrow> conn \<Rightarrow> (error + unit) \<times> conn" where
  "run_insert ins c =
     (case txn c of
        Idle \<Rightarrow> (case ins (store c) of
                   Inl e \<Rightarrow> (Inl e, c)
                 | Inr db' \<Rightarrow> (Inr (), c\<lparr>store := db'\<rparr>))
      | Active w \<Rightarrow> (case ins w of
                       Inl e \<Rightarrow> (Inl e, c\<lparr>txn := Aborted\<rparr>)
                     | Inr w' \<Rightarrow> (Inr (), c\<lparr>txn := Active w'\<rparr>))
      | Aborted \<Rightarrow> (Inl in_failed_sql_transaction, c))"

fun run_statement :: "statement \<Rightarrow> conn \<Rightarrow> (error + unit) \<times> conn" where
  "run_statement Begin c =
     (case txn c of
        Idle \<Rightarrow> (Inr (), c\<lparr>txn := Active (store c)\<rparr>)
      | Active w \<Rightarrow> (Inr (), c)
      | Aborted \<Rightarrow> (Inl in_failed_sql_transaction, c))"
| "run_statement (InsertAnalysis row) c = run_insert (insert_analysis_row row) c"
| "run_statement (InsertFinding row) c =
     (Inl syntax_error_at_column,
      (case txn c of
         Idle \<Rightarrow> c
       | Active w \<Rightarrow> c\<lparr>txn := Aborted\<rparr>
       | Aborted \<Rightarrow> c))"
| "run_statement Commit c =
     (case txn c of
        Idle \<Rightarrow> (Inr (), c)
      | Active w \<Rightarrow> (Inr (), \<lparr> store = w, txn = Idle \<rparr>)
      | Aborted \<Rightarrow> (Inr (), c\<lparr>txn := Idle\<rparr>))"
| "run_statement Rollback c = (Inr (), c\<lparr>txn := Idle\<rparr>)"

text \<open>
  What the outside world does to one call: \<^verbatim>\<open>db.getClient()\<close> can reject, the
  \<open>k\<close>-th \<^verbatim>\<open>query\<close> of the call can reject before it reaches the tables (a lost
  connection, a timeout), and so can the \<^verbatim>\<open>ROLLBACK\<close> of the \<^verbatim>\<open>catch\<close> block.
\<close>

record faults =
  connect_fail :: "error option"
  query_fail :: "nat \<Rightarrow> error option"
  rollback_fail :: "error option"

definition no_faults :: faults where
  "no_faults = \<lparr> connect_fail = None, query_fail = (\<lambda>k. None), rollback_fail = None \<rparr>"

definition client_query :: "faults \<Rightarrow> nat \<Rightarrow> statement \<Rightarrow> conn \<Rightarrow> (error + unit) \<times> conn" where
  "client_query fl k stmt c =
     (case query_fail fl k of
        Some e \<Rightarrow> (Inl e, c)
      | None \<Rightarrow> run_statement stmt c)"

section \<open>AnalysisRepository\<close>

subsection \<open>saveAnalysis\<close>

text \<open>
  The parameter lists of the two \<^verbatim>\<open>INSERT\<close> statements.
  \<^verbatim>\<open>finding.line || null\<close> sends \<^verbatim>\<open>NULL\<close> for every falsy value: a missing property,
  \<^verbatim>\<open>null\<close>, the number \<open>0\<close> and the empty string.
\<close>

definition num_or_null :: "int optional \<Rightarrow> int option" where
  "num_or_null x = (case x of Val n \<Rightarrow> (if n = 0 then None else Some n) | _ \<Rightarrow> None)"

definition str_or_null :: "string optional \<Rightarrow> string option" where
  "str_or_null x = (case x of Val s \<Rightarrow> (if s = [] then None else Some s) | _ \<Rightarrow> None)"

definition analysis_params :: "AnalysisResult \<Rightarrow> analysis_row" where
  "analysis_params r =
     \<lparr> a_id = result_id r, a_pr_number = prNumber r, a_repo_full_name = repoFullName r,
       a_status = status r, a_analyzed_at = analyzedAt r, a_duration = duration r,
       a_total_files = totalFiles (stats r), a_total_findings = totalFindings (stats r),
       a_critical_count = critical (stats r), a_high_count = high (stats r),
       a_medium_count = medium (stats r), a_low_count = low (stats r),
       a_info_count = info (stats r) \<rparr>"

definition finding_params :: "string \<Rightarrow> ComplianceFinding \<Rightarrow> finding_row" where
  "finding_params rid f =
     \<lparr> f_id = finding_id f, f_analysis_id = rid, f_type = ftype f, f_severity = severity f,
       f_message = message f, f_file = file' f, f_line = num_or_null (line f),
       f_column = num_or_null (column f), f_code = str_or_null (code f),
       f_fix_suggestion = str_or_null (fixSuggestion f), f_rule_id = ruleId f,
       f_rule_name = ruleName f \<rparr>"

text \<open>The \<^verbatim>\<open>for (const finding of result.findings)\<close> loop; \<open>k\<close> numbers the query.\<close>

fun insert_findings ::
  "faults \<Rightarrow> nat \<Rightarrow> string \<Rightarrow> ComplianceFinding list \<Rightarrow> conn \<Rightarrow> (error + unit) \<times> conn" where
  "insert_findings fl k rid [] c = (Inr (), c)"
| "insert_findings fl k rid (f # fs) c =
     (case client_query fl k (InsertFinding (finding_params rid f)) c of
        (Inl e, c') \<Rightarrow> (Inl e, c')
      | (Inr u, c') \<Rightarrow> insert_findings fl (Suc k) rid fs c')"

text \<open>The \<^verbatim>\<open>try\<close> block: \<^verbatim>\<open>BEGIN\<close>, the analysis row, the finding rows, \<^verbatim>\<open>COMMIT\<close>.\<close>

definition save_try :: "faults \<Rightarrow> AnalysisResult \<Rightarrow> conn \<Rightarrow> (error + unit) \<times> conn" where
  "save_try fl r c =
     (case client_query fl 0 Begin c of
        (Inl e, c1) \<Rightarrow> (Inl e, c1)
      | (Inr u, c1) \<Rightarrow>
          (case client_query fl 1 (InsertAnalysis (analysis_params r)) c1 of
             (Inl e, c2) \<Rightarrow> (Inl e, c2)
           | (Inr u, c2) \<Rightarrow>
               (case insert_findings fl 2 (result_id r) (findings r) c2 of
                  (Inl e, c3) \<Rightarrow> (Inl e, c3)
                | (Inr u, c3) \<Rightarrow> client_query fl (2 + length (findings r)) Commit c3)))"

text \<open>The \<^verbatim>\<open>catch\<close> block's \<^verbatim>\<open>await client.query('ROLLBACK')\<close>.\<close>

definition client_rollback :: "faults \<Rightarrow> conn \<Rightarrow> (error + unit) \<times> conn" where
  "client_rollback fl c =
     (case rollback_fail fl of
        Some e \<Rightarrow> (Inl e, c)
      | None \<Rightarrow> run_statement Rollback c)"

text \<open>
  The \<^verbatim>\<open>try\<close>, \<^verbatim>\<open>catch\<close> and \<^verbatim>\<open>finally\<close> of \<^verbatim>\<open>saveAnalysis\<close> on the client it
  acquired: the outcome the caller sees, and the client as \<^verbatim>\<open>client.release()\<close> hands it
  back to the pool. An error thrown inside the \<^verbatim>\<open>try\<close> is rethrown after the
  \<^verbatim>\<open>ROLLBACK\<close>, unless the \<^verbatim>\<open>ROLLBACK\<close> itself throws, and then that error is the one
  the caller sees.
\<close>

definition save_on_client :: "faults \<Rightarrow> AnalysisResult \<Rightarrow> conn \<Rightarrow> (error + unit) \<times> conn" where
  "save_on_client fl r c =
     (case save_try fl r c of
        (Inr u, c1) \<Rightarrow> (Inr (), c1)
      | (Inl e, c1) \<Rightarrow>
          (case client_rollback fl c1 of
             (Inl e', c2) \<Rightarrow> (Inl e', c2)
           | (Inr u, c2) \<Rightarrow> (Inl e, c2)))"

text \<open>
  \<^verbatim>\<open>saveAnalysis\<close> on the committed store \<open>db\<close>: the outcome the caller sees and the
  committed store afterwards. \<^verbatim>\<open>getClient\<close> is awaited before the \<^verbatim>\<open>try\<close>, so its
  rejection goes straight to the caller; the client it resolves to has no transaction open.
\<close>

definition saveAnalysis :: "faults \<Rightarrow> db_state \<Rightarrow> AnalysisResult \<Rightarrow> (error + unit) \<times> db_state" where
  "saveAnalysis fl db r =
     (case connect_fail fl of
        Some e \<Rightarrow> (Inl e, db)
      | None \<Rightarrow>
          (case save_on_client fl r \<lparr> store = db, txn = Idle \<rparr> of
             (res, c) \<Rightarrow> (res, store c)))"

subsection \<open>Reading back\<close>

text \<open>
  \<^verbatim>\<open>mapToFinding\<close> and \<^verbatim>\<open>mapToAnalysisResult\<close>. \<^verbatim>\<open>String\<close> and \<^verbatim>\<open>Number\<close> leave a
  text and an integer column as they are; \<^verbatim>\<open>row.line as number | undefined\<close> is a cast
  only, so a \<^verbatim>\<open>NULL\<close> column arrives as \<^verbatim>\<open>null\<close>.
\<close>

definition from_column :: "'a option \<Rightarrow> 'a optional" where
  "from_column x = (case x of None \<Rightarrow> Null | Some v \<Rightarrow> Val v)"

definition mapToFinding :: "finding_row \<Rightarrow> ComplianceFinding" where
  "mapToFinding row =
     \<lparr> finding_id = f_id row, ftype = f_type row, severity = f_severity row,
       message = f_message row, file' = f_file row, line = from_column (f_line row),
       column = from_column (f_column row), code = from_column (f_code row),
       fixSuggestion = from_column (f_fix_suggestion row), ruleId = f_rule_id row,
       ruleName = f_rule_name row \<rparr>"

definition mapToAnalysisResult :: "analysis_row \<Rightarrow> finding_row list \<Rightarrow> AnalysisResult" where
  "mapToAnalysisResult analysis rows =
     \<lparr> result_id = a_id analysis, prNumber = a_pr_number analysis,
       repoFullName = a_repo_full_name analysis, status = a_status analysis,
       findings = map mapToFinding rows, analyzedAt = a_analyzed_at analysis,
       duration = a_duration analysis,
       stats = \<lparr> totalFiles = a_total_files analysis,
                 totalFindings = a_total_findings analysis,
                 critical = a_critical_count analysis, high = a_high_count analysis,
                 medium = a_medium_count analysis, low = a_low_count analysis,
                 info = a_info_count analysis \<rparr> \<rparr>"

text \<open>
  \<^verbatim>\<open>SELECT * FROM findings WHERE analysis_id = $1\<close>: the rows of one analysis, as the
  table holds them (SQL promises no order without \<^verbatim>\<open>ORDER BY\<close>; a sequential scan
  gives the insertion order).
\<close>

definition select_findings :: "db_state \<Rightarrow> string \<Rightarrow> finding_row list" where
  "select_findings db i = filter (\<lambda>f. f_analysis_id f = i) (findings_table db)"

text \<open>
  \<^verbatim>\<open>... ORDER BY severity, file, line\<close>: ascending in each column, \<^verbatim>\<open>NULL\<close> after
  every value. How two severities and two file names compare is not in the source: the type of
  the \<^verbatim>\<open>severity\<close> column is declared in the schema and the order of texts is the
  collation of the database. Both are parameters: the position of each severity in the
  column's order, and the sort key the collation gives a text (texts compare as their sort
  keys do, as with \<^verbatim>\<open>strxfrm\<close>).
\<close>

record column_order =
  severity_position :: "severity \<Rightarrow> nat"
  collation_key :: "string \<Rightarrow> string"

definition order_key :: "column_order \<Rightarrow> finding_row \<Rightarrow> nat \<times> string \<times> bool \<times> int" where
  "order_key ord f =
     (severity_position ord (f_severity f), collation_key ord (f_file f), f_line f = None,
      (case f_line f of None \<Rightarrow> 0 | Some n \<Rightarrow> n))"

definition select_findings_ordered :: "column_order \<Rightarrow> db_state \<Rightarrow> string \<Rightarrow> finding_row list" where
  "select_findings_ordered ord db i = sort_key (order_key ord) (select_findings db i)"

text \<open>
  \<^verbatim>\<open>getAnalysis\<close>: two queries through \<^verbatim>\<open>db.query\<close>, which logs and rethrows; the
  \<^verbatim>\<open>catch\<close> of \<^verbatim>\<open>getAnalysis\<close> rethrows as well. No row is \<^verbatim>\<open>null\<close>, not an error.
\<close>

definition getAnalysis ::
  "faults \<Rightarrow> column_order \<Rightarrow> db_state \<Rightarrow> string \<Rightarrow> error + AnalysisResult option" where
  "getAnalysis fl ord db i =
     (case query_fail fl 0 of
        Some e \<Rightarrow> Inl e
      | None \<Rightarrow>
          (case filter (\<lambda>a. a_id a = i) (analyses_table db) of
             [] \<Rightarrow> Inr None
           | analysis # rest \<Rightarrow>
               (case query_fail fl 1 of
                  Some e \<Rightarrow> Inl e
                | None \<Rightarrow>
                    Inr (Some (mapToAnalysisResult analysis
                                 (select_findings_ordered ord db i))))))"





subsection \<open>What the store keeps true\<close>




subsection \<open>getStats\<close>

text \<open>
  The values a row of the statistics query can hold, as \<^verbatim>\<open>pg\<close> hands them over: an
  \<^verbatim>\<open>INTEGER\<close> column is a JavaScript number, a \<^verbatim>\<open>NUMERIC\<close> column a string; the
  default object holds the string \<^verbatim>\<open>'0'\<close> everywhere.
\<close>

datatype jsvalue = JUndefined | JNull | JNaN | JNum int | JStr string

record stats_row =
  total_analyses :: jsvalue
  total_findings :: jsvalue
  total_critical :: jsvalue
  total_high :: jsvalue
  total_medium :: jsvalue
  total_low :: jsvalue
  total_info :: jsvalue
  avg_duration :: jsvalue

definition defaultStats :: stats_row where
  "defaultStats =
     \<lparr> total_analyses = JStr ''0'', total_findings = JStr ''0'', total_critical = JStr ''0'',
       total_high = JStr ''0'', total_medium = JStr ''0'', total_low = JStr ''0'',
       total_info = JStr ''0'', avg_duration = JStr ''0'' \<rparr>"

text \<open>
  \<^verbatim>\<open>getStats\<close>, as a function of what \<^verbatim>\<open>await db.query(...)\<close> did: it threw \<open>e\<close>
  (\<open>Inl e\<close>: the database cannot be reached, the table is not there, anything else), or it
  returned a result whose \<^verbatim>\<open>rows\<close> is missing (\<open>Inr None\<close>) or a list. Both branches of the
  \<^verbatim>\<open>catch\<close> return the default object.
\<close>

definition getStats :: "error + stats_row list option \<Rightarrow> error + stats_row" where
  "getStats query_result =
     (case query_result of
        Inr rows \<Rightarrow>
          (case rows of
             None \<Rightarrow> Inr defaultStats
           | Some [] \<Rightarrow> Inr defaultStats
           | Some (row # rest) \<Rightarrow> Inr row)
      | Inl e \<Rightarrow>
          (if err_code e = Some ''42P01'' \<or> err_code e = Some ''42P02'' then Inr defaultStats
           else Inr defaultStats))"

section \<open>The routes\<close>

text \<open>
  A response is its status and its JSON body: \<^verbatim>\<open>{success: true, data}\<close> or
  \<^verbatim>\<open>{success: false, error}\<close>. \<^verbatim>\<open>res.json\<close> without \<^verbatim>\<open>res.status\<close> answers 200.
\<close>

datatype 'a api_body = Success 'a | Failure string

record 'a response =
  status_code :: nat
  body :: "'a api_body"

text \<open>\<^verbatim>\<open>GET /api/analyses/:id\<close>.\<close>

definition get_analysis_route ::
  "faults \<Rightarrow> column_order \<Rightarrow> db_state \<Rightarrow> string \<Rightarrow> AnalysisResult response" where
  "get_analysis_route fl ord db i =
     (case getAnalysis fl ord db i of
        Inl e \<Rightarrow> \<lparr> status_code = 500, body = Failure ''Failed to fetch analysis'' \<rparr>
      | Inr None \<Rightarrow> \<lparr> status_code = 404, body = Failure ''Analysis not found'' \<rparr>
      | Inr (Some analysis) \<Rightarrow> \<lparr> status_code = 200, body = Success analysis \<rparr>)"

subsection \<open>The JavaScript built-ins of the statistics route\<close>

text \<open>
  \<^verbatim>\<open>String\<close>, \<^verbatim>\<open>parseInt(_, 10)\<close> and \<^verbatim>\<open>parseFloat\<close> on byte strings. Of the white
  space that both parsers skip, the ASCII characters are modelled; a number is exact
  (\<^verbatim>\<open>parseFloat\<close> gives the rational the digits denote, not its nearest double, and
  \<^verbatim>\<open>String\<close> writes an integer in full, as JavaScript does below \<^verbatim>\<open>1e21\<close>).
\<close>

definition digit_char :: "nat \<Rightarrow> char" where
  "digit_char d = char_of (48 + d)"

function show_nat :: "nat \<Rightarrow> string" where
  "show_nat n = (if n < 10 then [digit_char n] else show_nat (n div 10) @ [digit_char (n mod 10)])"
  by pat_completeness auto
termination
  by (relation "measure (\<lambda>n. n)") auto

definition show_int :: "int \<Rightarrow> string" where
  "show_int i = (if i < 0 then CHR ''-'' # show_nat (nat (- i)) else show_nat (nat i))"

definition js_String :: "jsvalue \<Rightarrow> string" where
  "js_String v =
     (case v of
        JUndefined \<Rightarrow> ''undefined''
      | JNull \<Rightarrow> ''null''
      | JNaN \<Rightarrow> ''NaN''
      | JNum n \<Rightarrow> show_int n
      | JStr s \<Rightarrow> s)"

definition falsy :: "jsvalue \<Rightarrow> bool" where
  "falsy v =
     (case v of
        JUndefined \<Rightarrow> True
      | JNull \<Rightarrow> True
      | JNaN \<Rightarrow> True
      | JNum n \<Rightarrow> n = 0
      | JStr s \<Rightarrow> s = [])"

definition is_space :: "char \<Rightarrow> bool" where
  "is_space c \<longleftrightarrow> (of_char c :: nat) \<in> {9, 10, 11, 12, 13, 32}"

definition is_digit :: "char \<Rightarrow> bool" where
  "is_digit c \<longleftrightarrow> 48 \<le> (of_char c :: nat) \<and> (of_char c :: nat) \<le> 57"

definition decimal :: "string \<Rightarrow> nat" where
  "decimal ds = foldl (\<lambda>acc c. 10 * acc + ((of_char c :: nat) - 48)) 0 ds"

text \<open>The optional sign in front of the digits: whether it is a minus, and the rest.\<close>

definition split_sign :: "string \<Rightarrow> bool \<times> string" where
  "split_sign s =
     (case s of
        [] \<Rightarrow> (False, [])
      | c # r \<Rightarrow>
          (if c = CHR ''-'' then (True, r) else if c = CHR ''+'' then (False, r) else (False, s)))"

text \<open>\<^verbatim>\<open>parseInt(s, 10)\<close>; \<open>None\<close> is \<^verbatim>\<open>NaN\<close>.\<close>

definition parseInt :: "string \<Rightarrow> int option" where
  "parseInt s =
     (case split_sign (dropWhile is_space s) of
        (neg, u) \<Rightarrow>
          (let ds = takeWhile is_digit u
           in if ds = [] then None
              else Some (if neg then - int (decimal ds) else int (decimal ds))))"

datatype jsnumber = NaN | Infinity | NegInfinity | Num rat

fun starts_with :: "string \<Rightarrow> string \<Rightarrow> bool" where
  "starts_with [] s = True"
| "starts_with (p # ps) [] = False"
| "starts_with (p # ps) (c # cs) = (p = c \<and> starts_with ps cs)"

text \<open>
  The exponent part \<^verbatim>\<open>[eE][+-]?[0-9]+\<close> at the head of a string, if there is one; without
  a digit after the \<^verbatim>\<open>e\<close> there is none.
\<close>

definition exponent_part :: "string \<Rightarrow> int" where
  "exponent_part s =
     (case s of
        [] \<Rightarrow> 0
      | c # r \<Rightarrow>
          (if c = CHR ''e'' \<or> c = CHR ''E'' then
             (case split_sign r of
                (neg, u) \<Rightarrow>
                  (let ds = takeWhile is_digit u
                   in if ds = [] then 0
                      else if neg then - int (decimal ds) else int (decimal ds)))
           else 0))"

definition pow10 :: "int \<Rightarrow> rat" where
  "pow10 e = (if 0 \<le> e then 10 ^ nat e else 1 / 10 ^ nat (- e))"

definition parseFloat :: "string \<Rightarrow> jsnumber" where
  "parseFloat s =
     (case split_sign (dropWhile is_space s) of
        (neg, u) \<Rightarrow>
          (if starts_with ''Infinity'' u then (if neg then NegInfinity else Infinity)
           else
             (let ip = takeWhile is_digit u;
                  r1 = dropWhile is_digit u;
                  fp = (case r1 of
                          [] \<Rightarrow> []
                        | c # r \<Rightarrow> (if c = CHR ''.'' then takeWhile is_digit r else []));
                  r2 = (case r1 of
                          [] \<Rightarrow> []
                        | c # r \<Rightarrow> (if c = CHR ''.'' then dropWhile is_digit r else r1))
              in if ip = [] \<and> fp = [] then NaN
                 else
                   (let magnitude =
                          of_nat (decimal (ip @ fp)) / 10 ^ length fp * pow10 (exponent_part r2)
                    in Num (if neg then - magnitude else magnitude)))))"

subsection \<open>\<^verbatim>\<open>GET /api/stats\<close>\<close>

text \<open>\<^verbatim>\<open>value || '0'\<close>, and the two \<^verbatim>\<open>safeParse\<close> closures of the route.\<close>

definition or_zero :: "jsvalue \<Rightarrow> jsvalue" where
  "or_zero v = (if falsy v then JStr ''0'' else v)"

definition safeParseInt :: "jsvalue \<Rightarrow> int" where
  "safeParseInt v = (case parseInt (js_String (or_zero v)) of None \<Rightarrow> 0 | Some n \<Rightarrow> n)"

definition safeParseFloat :: "jsvalue \<Rightarrow> jsnumber" where
  "safeParseFloat v = (case parseFloat (js_String (or_zero v)) of NaN \<Rightarrow> Num 0 | parsed \<Rightarrow> parsed)"

record stats_data =
  totalAnalyses :: int
  totalFindings' :: int
  criticalIssues :: int
  highIssues :: int
  mediumIssues :: int
  lowIssues :: int
  infoIssues :: int
  avgDuration :: jsnumber

definition zero_stats :: stats_data where
  "zero_stats =
     \<lparr> totalAnalyses = 0, totalFindings' = 0, criticalIssues = 0, highIssues = 0,
       mediumIssues = 0, lowIssues = 0, infoIssues = 0, avgDuration = Num 0 \<rparr>"

text \<open>
  The route: the \<^verbatim>\<open>try\<close> answers 200 with the parsed row, the \<^verbatim>\<open>catch\<close> answers 200
  with the default body.
\<close>

definition stats_route :: "error + stats_row list option \<Rightarrow> stats_data response" where
  "stats_route query_result =
     (case getStats query_result of
        Inr row \<Rightarrow>
          \<lparr> status_code = 200,
            body = Success
              \<lparr> totalAnalyses = safeParseInt (total_analyses row),
                totalFindings' = safeParseInt (total_findings row),
                criticalIssues = safeParseInt (total_critical row),
                highIssues = safeParseInt (total_high row),
                mediumIssues = safeParseInt (total_medium row),
                lowIssues = safeParseInt (total_low row),
                infoIssues = safeParseInt (total_info row),
                avgDuration = safeParseFloat (avg_duration row) \<rparr> \<rparr>
      | Inl e \<Rightarrow> \<lparr> status_code = 200, body = Success zero_stats \<rparr>)"

section \<open>E2BAgent\<close>

subsection \<open>The sandbox service and the JavaScript run time\<close>

text \<open>
  The agent talks to three things outside the program: \<^verbatim>\<open>CodeInterpreter.create\<close>, the
  sandbox's \<^verbatim>\<open>runPythonCode\<close> and its \<^verbatim>\<open>kill\<close>. Each call resolves or rejects; what
  the \<open>n\<close>-th call does is given by the environment. The object \<^verbatim>\<open>create\<close> resolves to
  either passes the type guard \<^verbatim>\<open>isE2BSandbox\<close> (and then has a \<^verbatim>\<open>sandboxId\<close>) or does
  not. A script is named by the method that builds it and the values spliced into it.
\<close>

datatype change_status = Added | Modified | Removed | Renamed

record ChangedFile =
  filename :: string
  change :: change_status
  additions :: int
  deletions :: int
  content :: "string optional"

record E2BAnalysisContext =
  files :: "ChangedFile list"
  prNumber' :: int

datatype script =
    InstallScript
  | ConfigScript string
  | SetupScript "(string \<times> string \<times> change_status) list"
  | AnalysisScript
  | FetchScript string string string "string option"
  | ScanScript

datatype created = Sandbox string | Malformed

datatype exec_result = ResultString string | ResultObject "string option" "string option"

datatype json =
    JsonNull | JsonBool bool | JsonNumber rat | JsonString string
  | JsonArray "json list" | JsonObject "(string \<times> json) list"

text \<open>
  \<^verbatim>\<open>JSON.parse\<close> (\<open>None\<close> when it throws a \<^verbatim>\<open>SyntaxError\<close>), \<^verbatim>\<open>String\<close> on a parsed
  value and \<^verbatim>\<open>uuidv4\<close> (the \<open>n\<close>-th identifier it hands out) belong to the run time and
  are parameters as well.
\<close>

record environment =
  create :: "nat \<Rightarrow> error + created"
  runPythonCode :: "nat \<Rightarrow> script \<Rightarrow> error + exec_result"
  kill :: "nat \<Rightarrow> error + unit"
  JSON_parse :: "string \<Rightarrow> json option"
  to_string :: "json \<Rightarrow> string"
  uuidv4 :: "nat \<Rightarrow> string"

text \<open>
  The agent: the sandbox it holds (by its \<^verbatim>\<open>sandboxId\<close>; \<open>None\<close> is \<^verbatim>\<open>null\<close>), the
  token, how many calls of each kind it has made so far, and what it has written with
  \<^verbatim>\<open>logger.warn\<close> and \<^verbatim>\<open>logger.error\<close> (\<^verbatim>\<open>logger.info\<close> lines are left out).
\<close>

datatype log_entry = LogWarn string | LogError string error

record E2BAgent =
  sandbox :: "string option"
  githubToken :: string
  creates :: nat
  runs :: nat
  kills :: nat
  uuids :: nat
  logged :: "log_entry list"

definition new_agent :: "string \<Rightarrow> E2BAgent" where
  "new_agent token =
     \<lparr> sandbox = None, githubToken = token, creates = 0, runs = 0, kills = 0, uuids = 0,
       logged = [] \<rparr>"

definition log_error :: "string \<Rightarrow> error \<Rightarrow> E2BAgent \<Rightarrow> E2BAgent" where
  "log_error msg e a = a\<lparr>logged := logged a @ [LogError msg e]\<rparr>"

definition log_warn :: "string \<Rightarrow> E2BAgent \<Rightarrow> E2BAgent" where
  "log_warn msg a = a\<lparr>logged := logged a @ [LogWarn msg]\<rparr>"

definition not_initialized :: error where
  "not_initialized = Error None ''Sandbox not initialized''"

definition initialization_failed :: error where
  "initialization_failed = Error None ''E2B sandbox initialization failed''"

definition interface_mismatch :: error where
  "interface_mismatch = Error None ''E2B sandbox does not match expected interface''"

definition type_error :: error where
  "type_error = Error None ''TypeError: Cannot read properties of null''"

text \<open>One \<^verbatim>\<open>await this.sandbox.runPythonCode(script)\<close>.\<close>

definition run :: "environment \<Rightarrow> script \<Rightarrow> E2BAgent \<Rightarrow> (error + exec_result) \<times> E2BAgent" where
  "run env s a = (runPythonCode env (runs a) s, a\<lparr>runs := Suc (runs a)\<rparr>)"

text \<open>
  \<^verbatim>\<open>typeof result === 'string' ? result : (result.text || result.stdout || '')\<close>: an empty
  string is falsy.
\<close>

definition output_of :: "exec_result \<Rightarrow> string" where
  "output_of res =
     (case res of
        ResultString s \<Rightarrow> s
      | ResultObject text' stdout \<Rightarrow>
          (case text' of
             Some t \<Rightarrow> (if t \<noteq> [] then t else (case stdout of Some s \<Rightarrow> s | None \<Rightarrow> []))
           | None \<Rightarrow> (case stdout of Some s \<Rightarrow> s | None \<Rightarrow> [])))"

subsection \<open>initialize\<close>

definition setupMCPServers :: "environment \<Rightarrow> E2BAgent \<Rightarrow> (error + unit) \<times> E2BAgent" where
  "setupMCPServers env a =
     (case sandbox a of
        None \<Rightarrow> (Inl not_initialized, a)
      | Some sid \<Rightarrow>
          (case run env InstallScript a of
             (Inl e, a1) \<Rightarrow> (Inl e, log_error ''Error setting up MCP servers:'' e a1)
           | (Inr res, a1) \<Rightarrow>
               (case run env (ConfigScript (githubToken a1)) a1 of
                  (Inl e, a2) \<Rightarrow> (Inl e, log_error ''Error setting up MCP servers:'' e a2)
                | (Inr res', a2) \<Rightarrow> (Inr (), a2))))"

text \<open>
  Whatever is thrown inside the \<^verbatim>\<open>try\<close> of \<^verbatim>\<open>initialize\<close> is logged and replaced by
  \<^verbatim>\<open>new Error('E2B sandbox initialization failed')\<close>. \<^verbatim>\<open>this.sandbox\<close> is assigned
  before \<^verbatim>\<open>setupMCPServers\<close> runs, and stays assigned when that fails.
\<close>

definition initialize :: "environment \<Rightarrow> E2BAgent \<Rightarrow> (error + unit) \<times> E2BAgent" where
  "initialize env a =
     (let a0 = a\<lparr>creates := Suc (creates a)\<rparr>
      in case create env (creates a) of
           Inl e \<Rightarrow>
             (Inl initialization_failed, log_error ''Failed to initialize E2B sandbox:'' e a0)
         | Inr Malformed \<Rightarrow>
             (Inl initialization_failed,
              log_error ''Failed to initialize E2B sandbox:'' interface_mismatch a0)
         | Inr (Sandbox sid) \<Rightarrow>
             (case setupMCPServers env (a0\<lparr>sandbox := Some sid\<rparr>) of
                (Inl e, a1) \<Rightarrow>
                  (Inl initialization_failed, log_error ''Failed to initialize E2B sandbox:'' e a1)
              | (Inr u, a1) \<Rightarrow> (Inr (), a1)))"

text \<open>\<^verbatim>\<open>if (!this.sandbox) { await this.initialize(); }\<close>, outside every \<^verbatim>\<open>try\<close>.\<close>

definition ensure_sandbox :: "environment \<Rightarrow> E2BAgent \<Rightarrow> (error + unit) \<times> E2BAgent" where
  "ensure_sandbox env a = (if sandbox a = None then initialize env a else (Inr (), a))"

subsection \<open>parseAnalysisOutput\<close>

text \<open>
  The match of \<^verbatim>\<open>/\{[\s\S]*"findings"[\s\S]*\}/\<close>: there is one when some \<^verbatim>\<open>{\<close> is
  followed by \<^verbatim>\<open>"findings"\<close> and that by some \<^verbatim>\<open>}\<close>; both stars are greedy, so the
  match runs from the first \<^verbatim>\<open>{\<close> of the text to its last \<^verbatim>\<open>}\<close>.
\<close>

definition findings_key :: string where
  "findings_key = CHR 0x22 # ''findings'' @ [CHR 0x22]"

fun after_first :: "string \<Rightarrow> string \<Rightarrow> string option" where
  "after_first key [] = (if key = [] then Some [] else None)"
| "after_first key (c # cs) =
     (if starts_with key (c # cs) then Some (drop (length key) (c # cs))
      else after_first key cs)"

definition up_to_last :: "char \<Rightarrow> string \<Rightarrow> string" where
  "up_to_last c s = rev (dropWhile (\<lambda>x. x \<noteq> c) (rev s))"

definition findings_match :: "string \<Rightarrow> string option" where
  "findings_match output =
     (case dropWhile (\<lambda>c. c \<noteq> CHR ''{'') output of
        [] \<Rightarrow> None
      | brace # rest \<Rightarrow>
          (case after_first findings_key rest of
             None \<Rightarrow> None
           | Some tail \<Rightarrow>
               (if CHR ''}'' \<in> set tail then Some (brace # up_to_last (CHR ''}'') rest)
                else None)))"

text \<open>
  Reading a property of a parsed value: of an object the member (\<open>None\<close> is
  \<^verbatim>\<open>undefined\<close>), of \<^verbatim>\<open>null\<close> a \<^verbatim>\<open>TypeError\<close>, of anything else \<^verbatim>\<open>undefined\<close>.
  \<^verbatim>\<open>x || d\<close> keeps a truthy \<open>x\<close>.
\<close>

definition property_of :: "json \<Rightarrow> string \<Rightarrow> json option" where
  "property_of j k = (case j of JsonObject kvs \<Rightarrow> map_of kvs k | _ \<Rightarrow> None)"

definition truthy :: "json \<Rightarrow> bool" where
  "truthy j =
     (case j of
        JsonNull \<Rightarrow> False
      | JsonBool b \<Rightarrow> b
      | JsonNumber q \<Rightarrow> q \<noteq> 0
      | JsonString s \<Rightarrow> s \<noteq> []
      | _ \<Rightarrow> True)"

definition or_else :: "json option \<Rightarrow> json \<Rightarrow> json" where
  "or_else x d = (case x of Some v \<Rightarrow> (if truthy v then v else d) | None \<Rightarrow> d)"

text \<open>
  The object \<^verbatim>\<open>parseAnalysisOutput\<close> builds for one element of the array. Its type says
  \<^verbatim>\<open>ComplianceFinding\<close>, but \<^verbatim>\<open>as\<close> checks nothing: the properties that are only cast
  hold whatever the scanner printed.
\<close>

record parsed_finding =
  p_id :: string
  p_type :: json
  p_severity :: json
  p_message :: string
  p_file :: string
  p_line :: "json option"
  p_column :: "json option"
  p_code :: "json option"
  p_fixSuggestion :: "json option"
  p_ruleId :: string
  p_ruleName :: string

definition to_finding :: "environment \<Rightarrow> string \<Rightarrow> json \<Rightarrow> error + parsed_finding" where
  "to_finding env uuid finding =
     (case finding of
        JsonNull \<Rightarrow> Inl type_error
      | _ \<Rightarrow>
          Inr \<lparr> p_id = uuid,
                p_type = or_else (property_of finding ''type'') (JsonString ''security''),
                p_severity = or_else (property_of finding ''severity'') (JsonString ''medium''),
                p_message = to_string env (or_else (property_of finding ''message'') (JsonString [])),
                p_file = to_string env (or_else (property_of finding ''file'') (JsonString [])),
                p_line = property_of finding ''line'',
                p_column = property_of finding ''column'',
                p_code = property_of finding ''code'',
                p_fixSuggestion = property_of finding ''fixSuggestion'',
                p_ruleId = ''e2b-'' @ to_string env (or_else (property_of finding ''type'') (JsonString ''unknown'')),
                p_ruleName = to_string env (or_else (property_of finding ''ruleName'') (JsonString ''E2B Analysis'')) \<rparr>)"

text \<open>
  The \<^verbatim>\<open>.map\<close> over the array; \<open>n\<close> counts the identifiers \<^verbatim>\<open>uuidv4\<close> has handed out
  (\<^verbatim>\<open>id: uuidv4()\<close> is evaluated before the first property of the element is read).
\<close>

fun map_findings :: "environment \<Rightarrow> nat \<Rightarrow> json list \<Rightarrow> (error + parsed_finding list) \<times> nat" where
  "map_findings env n [] = (Inr [], n)"
| "map_findings env n (j # js) =
     (case to_finding env (uuidv4 env n) j of
        Inl e \<Rightarrow> (Inl e, Suc n)
      | Inr f \<Rightarrow>
          (case map_findings env (Suc n) js of
             (Inl e, m) \<Rightarrow> (Inl e, m)
           | (Inr fs, m) \<Rightarrow> (Inr (f # fs), m)))"

text \<open>
  \<^verbatim>\<open>parseAnalysisOutput\<close>: everything is inside one \<^verbatim>\<open>try\<close> whose \<^verbatim>\<open>catch\<close> logs and
  returns \<^verbatim>\<open>[]\<close>. An array is always truthy, so \<^verbatim>\<open>!parsed.findings || !Array.isArray(...)\<close>
  asks whether \<^verbatim>\<open>parsed.findings\<close> is an array.
\<close>

definition syntax_error :: error where
  "syntax_error = Error None ''SyntaxError: Unexpected token in JSON''"

definition parseAnalysisOutput ::
  "environment \<Rightarrow> string \<Rightarrow> E2BAgent \<Rightarrow> (error + parsed_finding list) \<times> E2BAgent" where
  "parseAnalysisOutput env output a =
     (case findings_match output of
        None \<Rightarrow> (Inr [], log_warn ''No findings JSON found in output'' a)
      | Some matched \<Rightarrow>
          (case JSON_parse env matched of
             None \<Rightarrow> (Inr [], log_error ''Error parsing analysis output:'' syntax_error a)
           | Some parsed \<Rightarrow>
               (case parsed of
                  JsonNull \<Rightarrow> (Inr [], log_error ''Error parsing analysis output:'' type_error a)
                | _ \<Rightarrow>
                    (case property_of parsed ''findings'' of
                       Some (JsonArray items) \<Rightarrow>
                         (case map_findings env (uuids a) items of
                            (Inl e, n) \<Rightarrow>
                              (Inr [], log_error ''Error parsing analysis output:'' e (a\<lparr>uuids := n\<rparr>))
                          | (Inr fs, n) \<Rightarrow> (Inr fs, a\<lparr>uuids := n\<rparr>))
                     | _ \<Rightarrow> (Inr [], a)))))"

text \<open>
  Whether the parser found an embedded JSON object with a \<^verbatim>\<open>findings\<close> array: the
  pattern matched, the match parsed, and its \<^verbatim>\<open>findings\<close> property is an array.
\<close>

definition has_findings_array :: "environment \<Rightarrow> string \<Rightarrow> bool" where
  "has_findings_array env output =
     (case findings_match output of
        None \<Rightarrow> False
      | Some matched \<Rightarrow>
          (case JSON_parse env matched of
             None \<Rightarrow> False
           | Some parsed \<Rightarrow>
               (case property_of parsed ''findings'' of Some (JsonArray items) \<Rightarrow> True | _ \<Rightarrow> False)))"

subsection \<open>analyzeWithMCP\<close>

text \<open>
  The files spliced into the set-up script: \<^verbatim>\<open>{filename, content: f.content || '', status}\<close>.
\<close>

definition workspace_files :: "E2BAnalysisContext \<Rightarrow> (string \<times> string \<times> change_status) list" where
  "workspace_files ctx =
     map (\<lambda>f. (filename f, (case content f of Val s \<Rightarrow> s | _ \<Rightarrow> []), change f)) (files ctx)"

definition setupWorkspace ::
  "environment \<Rightarrow> E2BAnalysisContext \<Rightarrow> E2BAgent \<Rightarrow> (error + unit) \<times> E2BAgent" where
  "setupWorkspace env ctx a =
     (case sandbox a of
        None \<Rightarrow> (Inl not_initialized, a)
      | Some sid \<Rightarrow>
          (case run env (SetupScript (workspace_files ctx)) a of
             (Inl e, a1) \<Rightarrow> (Inl e, a1)
           | (Inr res, a1) \<Rightarrow> (Inr (), a1)))"

text \<open>
  \<^verbatim>\<open>runAnalysis\<close>: the missing sandbox is thrown before the \<^verbatim>\<open>try\<close>; inside it, a
  rejected \<^verbatim>\<open>runPythonCode\<close> is logged and \<^verbatim>\<open>[]\<close> is returned.
\<close>

definition runAnalysis ::
  "environment \<Rightarrow> E2BAnalysisContext \<Rightarrow> E2BAgent \<Rightarrow> (error + parsed_finding list) \<times> E2BAgent" where
  "runAnalysis env ctx a =
     (case sandbox a of
        None \<Rightarrow> (Inl not_initialized, a)
      | Some sid \<Rightarrow>
          (case run env AnalysisScript a of
             (Inl e, a1) \<Rightarrow> (Inr [], log_error ''Error running analysis script:'' e a1)
           | (Inr res, a1) \<Rightarrow> parseAnalysisOutput env (output_of res) a1))"

text \<open>
  \<^verbatim>\<open>analyzeWithMCP\<close>: the \<^verbatim>\<open>catch\<close> logs and rethrows what \<^verbatim>\<open>setupWorkspace\<close> or
  \<^verbatim>\<open>runAnalysis\<close> threw.
\<close>

definition analyzeWithMCP ::
  "environment \<Rightarrow> E2BAnalysisContext \<Rightarrow> E2BAgent \<Rightarrow> (error + parsed_finding list) \<times> E2BAgent" where
  "analyzeWithMCP env ctx a =
     (case ensure_sandbox env a of
        (Inl e, a1) \<Rightarrow> (Inl e, a1)
      | (Inr u, a1) \<Rightarrow>
          (case setupWorkspace env ctx a1 of
             (Inl e, a2) \<Rightarrow> (Inl e, log_error ''Error during E2B analysis:'' e a2)
           | (Inr u', a2) \<Rightarrow>
               (case runAnalysis env ctx a2 of
                  (Inl e, a3) \<Rightarrow> (Inl e, log_error ''Error during E2B analysis:'' e a3)
                | (Inr fs, a3) \<Rightarrow> (Inr fs, a3))))"

subsection \<open>fetchFileFromGitHub, runSecurityScan, cleanup\<close>

text \<open>\<^verbatim>\<open>s.includes(t)\<close>: \<open>t\<close> occurs in \<open>s\<close>.\<close>

fun js_includes :: "string \<Rightarrow> string \<Rightarrow> bool" where
  "js_includes [] t = (t = [])"
| "js_includes (c # cs) t = (starts_with t (c # cs) \<or> js_includes cs t)"

text \<open>
  \<^verbatim>\<open>fetchFileFromGitHub\<close>: the script gets \<^verbatim>\<open>--ref\<close> when \<^verbatim>\<open>ref\<close> is truthy. Inside
  the \<^verbatim>\<open>try\<close>, a rejected call and an output that contains \<^verbatim>\<open>'error'\<close> both give
  \<^verbatim>\<open>null\<close>.
\<close>

definition fetchFileFromGitHub ::
  "environment \<Rightarrow> string \<Rightarrow> string \<Rightarrow> string \<Rightarrow> string optional \<Rightarrow> E2BAgent
     \<Rightarrow> (error + string option) \<times> E2BAgent" where
  "fetchFileFromGitHub env owner repo path ref a =
     (case ensure_sandbox env a of
        (Inl e, a1) \<Rightarrow> (Inl e, a1)
      | (Inr u, a1) \<Rightarrow>
          (case sandbox a1 of
             None \<Rightarrow> (Inr None, log_error ''Error fetching file from GitHub:'' type_error a1)
           | Some sid \<Rightarrow>
               (case run env (FetchScript owner repo path (str_or_null ref)) a1 of
                  (Inl e, a2) \<Rightarrow> (Inr None, log_error ''Error fetching file from GitHub:'' e a2)
                | (Inr res, a2) \<Rightarrow>
                    (if js_includes (output_of res) ''error'' then (Inr None, a2)
                     else (Inr (Some (output_of res)), a2)))))"

definition runSecurityScan ::
  "environment \<Rightarrow> ChangedFile list \<Rightarrow> E2BAgent \<Rightarrow> (error + parsed_finding list) \<times> E2BAgent" where
  "runSecurityScan env changed a =
     (case ensure_sandbox env a of
        (Inl e, a1) \<Rightarrow> (Inl e, a1)
      | (Inr u, a1) \<Rightarrow>
          (case sandbox a1 of
             None \<Rightarrow> (Inr [], log_error ''Error running security scan:'' type_error a1)
           | Some sid \<Rightarrow>
               (case run env ScanScript a1 of
                  (Inl e, a2) \<Rightarrow> (Inr [], log_error ''Error running security scan:'' e a2)
                | (Inr res, a2) \<Rightarrow> parseAnalysisOutput env (output_of res) a2)))"

text \<open>
  \<^verbatim>\<open>cleanup\<close>: nothing to do without a sandbox; otherwise \<^verbatim>\<open>kill\<close>, and
  \<^verbatim>\<open>this.sandbox = null\<close> only when that resolved. A rejected \<^verbatim>\<open>kill\<close> is logged.
\<close>

definition cleanup :: "environment \<Rightarrow> E2BAgent \<Rightarrow> (error + unit) \<times> E2BAgent" where
  "cleanup env a =
     (case sandbox a of
        None \<Rightarrow> (Inr (), a)
      | Some sid \<Rightarrow>
          (case kill env (kills a) of
             Inl e \<Rightarrow> (Inr (), log_error ''Error cleaning up sandbox:'' e (a\<lparr>kills := Suc (kills a)\<rparr>))
           | Inr u \<Rightarrow> (Inr (), a\<lparr>kills := Suc (kills a), sandbox := None\<rparr>)))"

text \<open>\<open>n\<close> calls of \<^verbatim>\<open>cleanup\<close> in a row: the outcome of each and the agent at the end.\<close>

fun cleanups :: "environment \<Rightarrow> nat \<Rightarrow> E2BAgent \<Rightarrow> (error + unit) list \<times> E2BAgent" where
  "cleanups env 0 a = ([], a)"
| "cleanups env (Suc n) a =
     (case cleanup env a of
        (res, a1) \<Rightarrow> (case cleanups env n a1 of (rs, a2) \<Rightarrow> (res # rs, a2)))"

section \<open>The properties, and the inputs they are tried on\<close>


text \<open>
  The order the spec gives for findings that are read back: severity descending under
  critical > high > medium > low > info, then file ascending, then line ascending (it says
  nothing of a finding without a line).
\<close>

definition severity_rank :: "severity \<Rightarrow> nat" where
  "severity_rank s = (case s of Critical \<Rightarrow> 0 | High \<Rightarrow> 1 | Medium \<Rightarrow> 2 | Low \<Rightarrow> 3 | Info \<Rightarrow> 4)"




text \<open>
  Findings, stats and analysis results to try the repository on. \<open>stored_result\<close> has no
  findings; \<open>example_result\<close> has two; \<open>retried_result\<close> has the id of
  \<open>stored_result\<close> and one finding; \<open>miscounted_result\<close> has no findings but stats that
  count five.
\<close>

definition finding_at :: "string \<Rightarrow> severity \<Rightarrow> string \<Rightarrow> int optional \<Rightarrow> ComplianceFinding" where
  "finding_at i s path l =
     \<lparr> finding_id = i, ftype = Security, severity = s, message = ''Hardcoded secret detected'',
       file' = path, line = l, column = Null, code = Null, fixSuggestion = Null,
       ruleId = ''security-001'', ruleName = ''Secret Detection'' \<rparr>"

definition result_with :: "string \<Rightarrow> ComplianceFinding list \<Rightarrow> Stats \<Rightarrow> AnalysisResult" where
  "result_with i fs st =
     \<lparr> result_id = i, prNumber = 7, repoFullName = ''owner/repo'', status = Completed,
       findings = fs, analyzedAt = 1700000000000, duration = 30, stats = st \<rparr>"

definition counts :: "int \<Rightarrow> int \<Rightarrow> int \<Rightarrow> Stats" where
  "counts c h i =
     \<lparr> totalFiles = 5, totalFindings = c + h + i, critical = c, high = h, medium = 0, low = 0,
       info = i \<rparr>"

definition stored_result :: AnalysisResult where
  "stored_result = result_with ''analysis-0'' [] (counts 0 0 0)"






text \<open>
  A database whose \<^verbatim>\<open>severity\<close> column puts critical first and whose collation compares
  texts byte by byte.
\<close>

definition byte_order :: column_order where
  "byte_order = \<lparr> severity_position = severity_rank, collation_key = (\<lambda>s. s) \<rparr>"



text \<open>
  Environments to try the agent on: \<^verbatim>\<open>create\<close> resolves to a sandbox or rejects, a
  script is rejected when \<open>rejects\<close> says so and prints \<open>out\<close> otherwise, \<^verbatim>\<open>kill\<close>
  resolves or rejects, and \<^verbatim>\<open>JSON.parse\<close> gives \<open>parsed\<close>.
\<close>

definition service_down :: error where
  "service_down = Error None ''fetch failed''"

definition sandbox_error :: error where
  "sandbox_error = Error None ''Sandbox error''"

definition scripted_env ::
  "bool \<Rightarrow> (script \<Rightarrow> bool) \<Rightarrow> string \<Rightarrow> bool \<Rightarrow> json option \<Rightarrow> environment" where
  "scripted_env creates_ok rejects out kill_ok parsed =
     \<lparr> create = (\<lambda>n. if creates_ok then Inr (Sandbox ''sandbox-1'') else Inl service_down),
       runPythonCode = (\<lambda>n s. if rejects s then Inl sandbox_error
                               else Inr (ResultObject (Some out) None)),
       kill = (\<lambda>n. if kill_ok then Inr () else Inl sandbox_error),
       JSON_parse = (\<lambda>s. parsed),
       to_string = (\<lambda>j. (case j of JsonString s \<Rightarrow> s | _ \<Rightarrow> ''[object Object]'')),
       uuidv4 = (\<lambda>n. ''uuid-'' @ show_nat n) \<rparr>"

text \<open>An SDK whose \<^verbatim>\<open>create\<close> resolves with an object that has no \<^verbatim>\<open>runPythonCode\<close>.\<close>

definition malformed_env :: environment where
  "malformed_env = (scripted_env True (\<lambda>s. False) ''ok'' True None)\<lparr>create := (\<lambda>n. Inr Malformed)\<rparr>"

definition empty_context :: E2BAnalysisContext where
  "empty_context = \<lparr> files = [], prNumber' = 1 \<rparr>"

definition running_agent :: E2BAgent where
  "running_agent = (new_agent ''token'')\<lparr>sandbox := Some ''sandbox-1'', creates := 1, runs := 2\<rparr>"

text \<open>
  What the fetch script prints when \<^verbatim>\<open>gh-mcp\<close> failed (\<^verbatim>\<open>{"error": "Not found"}\<close>), and a
  source file that was fetched without any failure.
\<close>

definition fetch_failed_output :: string where
  "fetch_failed_output =
     ''{'' @ [CHR 0x22] @ ''error'' @ [CHR 0x22] @ '': '' @ [CHR 0x22] @ ''Not found'' @ [CHR 0x22] @ ''}''"

definition source_with_error :: string where
  "source_with_error = ''try { run() } catch (e) { console.error(e) }''"

section \<open>Properties of the repository\<close>

subsection \<open>The transaction of \<^verbatim>\<open>saveAnalysis\<close>\<close>

lemma insert_finding_rejected:
  "client_query fl k (InsertFinding row) c = (res, c') \<Longrightarrow> (\<exists>e. res = Inl e) \<and> store c' = store c"
  by (auto simp: client_query_def split: option.splits txn_state.splits)

lemma insert_findings_result:
  assumes "insert_findings fl k rid fs c = (res, c')"
  shows "store c' = store c \<and> (case res of Inl e \<Rightarrow> fs \<noteq> [] | Inr u \<Rightarrow> fs = [] \<and> c' = c)"
proof (cases fs)
  case Nil
  with assms show ?thesis by auto
next
  case (Cons f fs')
  obtain r1 c1 where q: "client_query fl k (InsertFinding (finding_params rid f)) c = (r1, c1)"
    by (cases "client_query fl k (InsertFinding (finding_params rid f)) c")
  from insert_finding_rejected [OF q] obtain e where "r1 = Inl e" and "store c1 = store c" by blast
  with assms Cons q show ?thesis by auto
qed

lemma save_try_result:
  assumes "save_try fl r \<lparr> store = db, txn = Idle \<rparr> = (res, c)"
  shows "case res of
           Inl e \<Rightarrow> store c = db
         | Inr u \<Rightarrow>
             result_id r \<notin> set (map a_id (analyses_table db)) \<and> findings r = [] \<and>
             c = \<lparr> store = db\<lparr>analyses_table := analyses_table db @ [analysis_params r]\<rparr>,
                   txn = Idle \<rparr>"
proof (cases "query_fail fl 0")
  case (Some e)
  with assms show ?thesis by (auto simp: save_try_def client_query_def)
next
  case None
  let ?c1 = "\<lparr> store = db, txn = Active db \<rparr>"
  have b: "client_query fl 0 Begin \<lparr> store = db, txn = Idle \<rparr> = (Inr (), ?c1)"
    using None by (simp add: client_query_def)
  obtain r2 c2 where q2: "client_query fl 1 (InsertAnalysis (analysis_params r)) ?c1 = (r2, c2)"
    by (cases "client_query fl 1 (InsertAnalysis (analysis_params r)) ?c1")
  show ?thesis
  proof (cases r2)
    case (Inl e)
    with q2 have "store c2 = db"
      by (auto simp: client_query_def run_insert_def split: option.splits sum.splits)
    with assms b q2 Inl show ?thesis by (auto simp: save_try_def)
  next
    case (Inr u)
    let ?w = "db\<lparr>analyses_table := analyses_table db @ [analysis_params r]\<rparr>"
    from q2 Inr have fresh: "result_id r \<notin> set (map a_id (analyses_table db))"
      and c2: "c2 = \<lparr> store = db, txn = Active ?w \<rparr>"
      by (auto simp: client_query_def run_insert_def insert_analysis_row_def analysis_params_def
               split: option.splits sum.splits if_splits)
    obtain r3 c3 where q3: "insert_findings fl 2 (result_id r) (findings r) c2 = (r3, c3)"
      by (cases "insert_findings fl 2 (result_id r) (findings r) c2")
    note loop = insert_findings_result [OF q3]
    show ?thesis
    proof (cases r3)
      case (Inl e)
      with loop c2 have "store c3 = db" by simp
      with assms b q2 \<open>r2 = Inr u\<close> q3 Inl show ?thesis by (auto simp: save_try_def)
    next
      case (Inr u3)
      with loop c2 have none: "findings r = []" and c3: "c3 = \<lparr> store = db, txn = Active ?w \<rparr>"
        by simp_all
      from assms b q2 \<open>r2 = Inr u\<close> q3 Inr
      have fin: "client_query fl (2 + length (findings r)) Commit c3 = (res, c)"
        by (auto simp: save_try_def)
      show ?thesis
        using fin c3 fresh none
        by (auto simp: client_query_def split: option.splits sum.splits)
    qed
  qed
qed


lemma client_rollback_store: "store (snd (client_rollback fl c)) = store c"
  by (simp add: client_rollback_def split: option.splits)

lemma client_rollback_ends:
  "rollback_fail fl = None \<Longrightarrow> client_rollback fl c = (Inr (), c\<lparr>txn := Idle\<rparr>)"
  by (simp add: client_rollback_def)

lemma save_on_client_result:
  assumes "save_on_client fl r \<lparr> store = db, txn = Idle \<rparr> = (res, c)"
  shows "(case res of
            Inl e \<Rightarrow> store c = db
          | Inr u \<Rightarrow>
              result_id r \<notin> set (map a_id (analyses_table db)) \<and> findings r = [] \<and>
              store c = db\<lparr>analyses_table := analyses_table db @ [analysis_params r]\<rparr>)
         \<and> (rollback_fail fl = None \<longrightarrow> txn c = Idle)"
proof -
  obtain r1 c1 where t: "save_try fl r \<lparr> store = db, txn = Idle \<rparr> = (r1, c1)"
    by (cases "save_try fl r \<lparr> store = db, txn = Idle \<rparr>")
  note st = save_try_result [OF t]
  show ?thesis
  proof (cases r1)
    case (Inl e1)
    with st have s1: "store c1 = db" by simp
    obtain r2 c2 where rb: "client_rollback fl c1 = (r2, c2)" by (cases "client_rollback fl c1")
    with client_rollback_store [of fl c1] s1 have s2: "store c2 = db" by simp
    from rb client_rollback_ends [of fl c1] have "rollback_fail fl = None \<longrightarrow> txn c2 = Idle" by auto
    with assms t Inl rb s2 show ?thesis
      by (auto simp: save_on_client_def split: sum.splits)
  next
    case (Inr u1)
    with st assms t show ?thesis by (auto simp: save_on_client_def)
  qed
qed

lemma saveAnalysis_failure:
  assumes "saveAnalysis fl db r = (Inl e, db')"
  shows "db' = db"
proof (cases "connect_fail fl")
  case (Some e0)
  with assms show ?thesis by (simp add: saveAnalysis_def)
next
  case None
  obtain res c where t: "save_on_client fl r \<lparr> store = db, txn = Idle \<rparr> = (res, c)"
    by (cases "save_on_client fl r \<lparr> store = db, txn = Idle \<rparr>")
  with assms None have "res = Inl e" and "db' = store c" by (auto simp: saveAnalysis_def)
  with save_on_client_result [OF t] show ?thesis by simp
qed

lemma saveAnalysis_success:
  assumes "saveAnalysis fl db r = (Inr u, db')"
  shows "result_id r \<notin> set (map a_id (analyses_table db)) \<and> findings r = [] \<and>
         db' = db\<lparr>analyses_table := analyses_table db @ [analysis_params r]\<rparr>"
proof (cases "connect_fail fl")
  case (Some e0)
  with assms show ?thesis by (simp add: saveAnalysis_def)
next
  case None
  obtain res c where t: "save_on_client fl r \<lparr> store = db, txn = Idle \<rparr> = (res, c)"
    by (cases "save_on_client fl r \<lparr> store = db, txn = Idle \<rparr>")
  with assms None have "res = Inr u" and "db' = store c" by (auto simp: saveAnalysis_def)
  with save_on_client_result [OF t] show ?thesis by simp
qed



lemma saveAnalysis_with_findings:
  assumes "findings r \<noteq> []"
  shows "\<exists>e. saveAnalysis fl db r = (Inl e, db)"
proof -
  obtain res db' where s: "saveAnalysis fl db r = (res, db')" by (cases "saveAnalysis fl db r")
  show ?thesis
  proof (cases res)
    case (Inl e)
    with s saveAnalysis_failure show ?thesis by blast
  next
    case (Inr u)
    with s saveAnalysis_success assms show ?thesis by blast
  qed
qed







subsection \<open>Reading from a store\<close>








lemma sorted_select_findings_ordered:
  "sorted (map (order_key ord) (select_findings_ordered ord db i))"
  by (simp add: select_findings_ordered_def)

subsection \<open>The examples\<close>

lemmas example_defs = stored_result_def result_with_def finding_at_def counts_def

lemmas save_eval = saveAnalysis_def save_on_client_def save_try_def client_query_def
  client_rollback_def run_insert_def insert_analysis_row_def analysis_params_def finding_params_def
  num_or_null_def str_or_null_def empty_db_def no_faults_def


lemma save_stored:
  "saveAnalysis no_faults empty_db stored_result
     = (Inr (), \<lparr> analyses_table = [analysis_params stored_result], findings_table = [] \<rparr>)"
  by (simp add: save_eval example_defs)


lemma no_faults_query: "query_fail no_faults k = None"
  by (simp add: no_faults_def)





subsection \<open>getStats and its route\<close>

lemmas parse_eval = safeParseInt_def safeParseFloat_def or_zero_def falsy_def js_String_def
  parseInt_def parseFloat_def split_sign_def is_space_def is_digit_def decimal_def
  exponent_part_def pow10_def

lemma getStats_total: "\<exists>s. getStats q = Inr s"
  by (auto simp: getStats_def split: sum.splits option.splits list.splits)

lemma getStats_on_error: "getStats (Inl e) = Inr defaultStats"
  by (simp add: getStats_def)

lemma stats_route_status: "status_code (stats_route q) = 200"
  by (simp add: stats_route_def split: sum.splits)

lemma safeParseFloat_number: "safeParseFloat v \<noteq> NaN"
  by (simp add: safeParseFloat_def split: jsnumber.splits)

lemma stats_route_number:
  "(case body (stats_route q) of Success d \<Rightarrow> avgDuration d \<noteq> NaN | Failure m \<Rightarrow> False)"
  by (simp add: stats_route_def zero_stats_def safeParseFloat_number split: sum.splits)

lemma default_body: "getStats q = Inr defaultStats \<Longrightarrow>
    stats_route q = \<lparr> status_code = 200, body = Success zero_stats \<rparr>"
  by (simp add: stats_route_def zero_stats_def defaultStats_def parse_eval)

section \<open>Properties of the agent\<close>

lemma starts_with_iff: "starts_with p s \<longleftrightarrow> (\<exists>post. s = p @ post)"
  by (induction p s rule: starts_with.induct) auto

lemma js_includes_iff: "js_includes s t \<longleftrightarrow> (\<exists>pre post. s = pre @ t @ post)"
proof (induction s)
  case Nil
  then show ?case by simp
next
  case (Cons c cs)
  show ?case
  proof
    assume "js_includes (c # cs) t"
    then consider "starts_with t (c # cs)" | "js_includes cs t" by auto
    then show "\<exists>pre post. c # cs = pre @ t @ post"
    proof cases
      case 1
      then obtain post where "c # cs = t @ post" by (auto simp: starts_with_iff)
      then have "c # cs = [] @ t @ post" by simp
      then show ?thesis by blast
    next
      case 2
      with Cons.IH obtain pre post where "cs = pre @ t @ post" by blast
      then have "c # cs = (c # pre) @ t @ post" by simp
      then show ?thesis by blast
    qed
  next
    assume "\<exists>pre post. c # cs = pre @ t @ post"
    then obtain pre post where eq: "c # cs = pre @ t @ post" by blast
    show "js_includes (c # cs) t"
    proof (cases pre)
      case Nil
      with eq have "starts_with t (c # cs)" by (auto simp: starts_with_iff)
      then show ?thesis by simp
    next
      case (Cons d pre')
      with eq have "cs = pre' @ t @ post" by simp
      with Cons.IH have "js_includes cs t" by blast
      then show ?thesis by simp
    qed
  qed
qed

lemma setupMCPServers_sandbox:
  "setupMCPServers env a = (res, a1) \<Longrightarrow> sandbox a1 = sandbox a"
  by (auto simp: setupMCPServers_def run_def log_error_def split: option.splits sum.splits prod.splits)

lemma initialize_failure:
  "initialize env a = (Inl e, a1) \<Longrightarrow> e = initialization_failed"
  by (auto simp: initialize_def Let_def split: sum.splits created.splits prod.splits)

lemma initialize_success:
  "initialize env a = (Inr u, a1) \<Longrightarrow> sandbox a1 \<noteq> None"
  by (auto simp: initialize_def Let_def split: sum.splits created.splits prod.splits
           dest!: setupMCPServers_sandbox)

lemma ensure_sandbox_success:
  "ensure_sandbox env a = (Inr u, a1) \<Longrightarrow> sandbox a1 \<noteq> None"
  by (auto simp: ensure_sandbox_def dest: initialize_success split: if_splits)

lemma parseAnalysisOutput_total: "\<exists>fs a1. parseAnalysisOutput env output a = (Inr fs, a1)"
  by (auto simp: parseAnalysisOutput_def split: option.splits json.splits prod.splits sum.splits)

lemma parseAnalysisOutput_none:
  "\<not> has_findings_array env output \<Longrightarrow> fst (parseAnalysisOutput env output a) = Inr []"
  by (auto simp: parseAnalysisOutput_def has_findings_array_def property_of_def
           split: option.splits json.splits prod.splits sum.splits)

lemmas agent_eval = analyzeWithMCP_def ensure_sandbox_def initialize_def setupMCPServers_def
  setupWorkspace_def runAnalysis_def run_def log_error_def log_warn_def new_agent_def
  scripted_env_def empty_context_def workspace_files_def running_agent_def Let_def

lemma findings_match_empty: "findings_match [] = None"
  by (simp add: findings_match_def)

lemma findings_match_no_brace:
  assumes "CHR ''{'' \<notin> set out"
  shows "findings_match out = None"
proof -
  from assms have none: "dropWhile (\<lambda>c. c \<noteq> CHR ''{'') out = []"
    by (auto simp: dropWhile_eq_Nil_conv)
  show ?thesis unfolding findings_match_def none by simp
qed

lemma cleanup_result: "fst (cleanup env a) = Inr ()"
  by (simp add: cleanup_def split: option.splits sum.splits)

lemma cleanup_without_sandbox: "sandbox a = None \<Longrightarrow> cleanup env a = (Inr (), a)"
  by (simp add: cleanup_def)

lemma cleanups_never_throw: "fst (cleanups env n a) = replicate n (Inr ())"
proof (induction n arbitrary: a)
  case 0
  then show ?case by simp
next
  case (Suc n)
  obtain res a1 where c: "cleanup env a = (res, a1)" by (cases "cleanup env a")
  with cleanup_result [of env a] have "res = Inr ()" by simp
  moreover obtain rs a2 where "cleanups env n a1 = (rs, a2)" by (cases "cleanups env n a1")
  moreover from this Suc.IH [of a1] have "rs = replicate n (Inr ())" by simp
  ultimately show ?case using c by simp
qed

lemma cleanup_twice:
  assumes "kill env (Suc (kills a)) = kill env (kills a)"
  shows "sandbox (snd (cleanup env (snd (cleanup env a)))) = sandbox (snd (cleanup env a))"
  using assms
  by (auto simp: cleanup_def log_error_def split: option.splits sum.splits)

lemma fetch_after_ensure:
  assumes "ensure_sandbox env a = (Inr u, a1)"
  shows "fst (fetchFileFromGitHub env owner repo path ref a)
           = (case runPythonCode env (runs a1) (FetchScript owner repo path (str_or_null ref)) of
                Inl e \<Rightarrow> Inr None
              | Inr res \<Rightarrow>
                  (if js_includes (output_of res) ''error'' then Inr None
                   else Inr (Some (output_of res))))"
proof -
  from ensure_sandbox_success [OF assms] obtain sid where "sandbox a1 = Some sid" by auto
  with assms show ?thesis
    by (simp add: fetchFileFromGitHub_def run_def split: sum.splits)
qed

section \<open>The claims\<close>










text \<open>
  Claim C5. \<^verbatim>\<open>getStats\<close> never fails its caller. Whatever the query did (threw any
  error, among them the refused connection and the missing table with SQLSTATE 42P01, or
  returned a result with no rows or with rows), \<^verbatim>\<open>getStats\<close> returns a stats object;
  when the query threw or gave no row it is the default object. \<^verbatim>\<open>GET /api/stats\<close>
  always answers 200 with a success body whose numbers are numbers, and in those failure
  cases every count in the body is zero.
\<close>

theorem getStats_never_fails:
  "(\<exists>s. getStats q = Inr s)
   \<and> getStats (Inl e) = Inr defaultStats
   \<and> getStats (Inl connection_refused) = Inr defaultStats
   \<and> getStats (Inl undefined_table) = Inr defaultStats
   \<and> getStats (Inr None) = Inr defaultStats
   \<and> getStats (Inr (Some [])) = Inr defaultStats
   \<and> status_code (stats_route q) = 200
   \<and> (case body (stats_route q) of Success d \<Rightarrow> avgDuration d \<noteq> NaN | Failure m \<Rightarrow> False)
   \<and> stats_route (Inl e) = \<lparr> status_code = 200, body = Success zero_stats \<rparr>
   \<and> stats_route (Inl connection_refused) = \<lparr> status_code = 200, body = Success zero_stats \<rparr>
   \<and> stats_route (Inl undefined_table) = \<lparr> status_code = 200, body = Success zero_stats \<rparr>
   \<and> stats_route (Inr None) = \<lparr> status_code = 200, body = Success zero_stats \<rparr>
   \<and> stats_route (Inr (Some [])) = \<lparr> status_code = 200, body = Success zero_stats \<rparr>"
proof -
  have empty: "getStats (Inr None) = Inr defaultStats" "getStats (Inr (Some [])) = Inr defaultStats"
    by (simp_all add: getStats_def)
  show ?thesis
    using getStats_total [of q] getStats_on_error stats_route_status [of q]
      stats_route_number [of q] empty default_body
    by simp
qed

text \<open>
  Claim C6. For an id that no analysis row has, \<^verbatim>\<open>getAnalysis\<close> (its query answered)
  returns \<^verbatim>\<open>null\<close>, not an error, and \<^verbatim>\<open>GET /api/analyses/:id\<close> answers 404.
\<close>

theorem missing_analysis_is_absent:
  assumes "query_fail fl 0 = None" and "i \<notin> set (map a_id (analyses_table db))"
  shows "getAnalysis fl ord db i = Inr None
         \<and> get_analysis_route fl ord db i
             = \<lparr> status_code = 404, body = Failure ''Analysis not found'' \<rparr>"
proof -
  from assms(2) have "filter (\<lambda>a. a_id a = i) (analyses_table db) = []"
    by (force simp: filter_empty_conv)
  with assms(1) have "getAnalysis fl ord db i = Inr None"
    by (simp add: getAnalysis_def)
  then show ?thesis by (simp add: get_analysis_route_def)
qed

text \<open>An id that is not in a store that holds one analysis.\<close>

theorem missing_analysis_is_absent_witness:
  "query_fail no_faults 0 = None
   \<and> ''nonexistent'' \<notin> set (map a_id (analyses_table (snd (saveAnalysis no_faults empty_db stored_result))))
   \<and> getAnalysis no_faults byte_order (snd (saveAnalysis no_faults empty_db stored_result))
        ''nonexistent'' = Inr None
   \<and> status_code (get_analysis_route no_faults byte_order
        (snd (saveAnalysis no_faults empty_db stored_result)) ''nonexistent'') = 404"
proof -
  have absent: "''nonexistent'' \<notin> set (map a_id
      (analyses_table (snd (saveAnalysis no_faults empty_db stored_result))))"
    by (simp only: save_stored snd_conv) (simp add: analysis_params_def example_defs)
  from missing_analysis_is_absent [OF no_faults_query absent, of byte_order] absent no_faults_query
  show ?thesis by simp
qed

text \<open>
  Claim C7, as amended. \<^verbatim>\<open>analyzeWithMCP\<close> rejects when it cannot acquire a session:
  \<^verbatim>\<open>initialize\<close> fails when \<^verbatim>\<open>create\<close> rejects, when \<^verbatim>\<open>create\<close> returns an object
  that is not a sandbox, when the script that installs the servers is rejected and when the
  script that configures them is rejected, always with the error \<^verbatim>\<open>E2B sandbox
  initialization failed\<close>, and \<^verbatim>\<open>analyzeWithMCP\<close> rejects with that error. It rejects too
  when the script that writes the workspace is rejected (with that script's error). When the
  analysis script itself is rejected, \<^verbatim>\<open>runAnalysis\<close> catches the error and
  \<^verbatim>\<open>analyzeWithMCP\<close> resolves with no findings.
\<close>

theorem analyzeWithMCP_failures:
  "(sandbox a = None \<and> fst (initialize env a) = Inl e
      \<longrightarrow> e = initialization_failed \<and> fst (analyzeWithMCP env ctx a) = Inl e)
   \<and> (sandbox a = None \<and> create env (creates a) = Inl e
      \<longrightarrow> fst (initialize env a) = Inl initialization_failed
          \<and> fst (analyzeWithMCP env ctx a) = Inl initialization_failed)
   \<and> (sandbox a = None \<and> create env (creates a) = Inr Malformed
      \<longrightarrow> fst (initialize env a) = Inl initialization_failed
          \<and> fst (analyzeWithMCP env ctx a) = Inl initialization_failed)
   \<and> (sandbox a = None \<and> create env (creates a) = Inr (Sandbox sid)
        \<and> runPythonCode env (runs a) InstallScript = Inl e
      \<longrightarrow> fst (initialize env a) = Inl initialization_failed
          \<and> fst (analyzeWithMCP env ctx a) = Inl initialization_failed)
   \<and> (sandbox a = None \<and> create env (creates a) = Inr (Sandbox sid)
        \<and> runPythonCode env (runs a) InstallScript = Inr res
        \<and> runPythonCode env (Suc (runs a)) (ConfigScript (githubToken a)) = Inl e
      \<longrightarrow> fst (initialize env a) = Inl initialization_failed
          \<and> fst (analyzeWithMCP env ctx a) = Inl initialization_failed)
   \<and> (ensure_sandbox env a = (Inr u, a1)
        \<and> runPythonCode env (runs a1) (SetupScript (workspace_files ctx)) = Inl e
      \<longrightarrow> fst (analyzeWithMCP env ctx a) = Inl e)
   \<and> (ensure_sandbox env a = (Inr u, a1)
        \<and> runPythonCode env (runs a1) (SetupScript (workspace_files ctx)) = Inr res
        \<and> runPythonCode env (Suc (runs a1)) AnalysisScript = Inl e
      \<longrightarrow> fst (analyzeWithMCP env ctx a) = Inr [])"
proof -
  have init: "e' = initialization_failed \<and> fst (analyzeWithMCP env ctx a) = Inl e'"
    if none: "sandbox a = None" and failed: "fst (initialize env a) = Inl e'" for e'
  proof -
    obtain a' where i: "initialize env a = (Inl e', a')"
      using failed by (cases "initialize env a") simp
    with none have "fst (analyzeWithMCP env ctx a) = Inl e'"
      by (simp add: analyzeWithMCP_def ensure_sandbox_def)
    with initialize_failure [OF i] show ?thesis by simp
  qed
  have rejected: "fst (initialize env a) = Inl initialization_failed"
    if "create env (creates a) = Inl e"
    using that by (simp add: initialize_def Let_def)
  have malformed: "fst (initialize env a) = Inl initialization_failed"
    if "create env (creates a) = Inr Malformed"
    using that by (simp add: initialize_def Let_def)
  have install: "fst (initialize env a) = Inl initialization_failed"
    if "create env (creates a) = Inr (Sandbox sid)" and "runPythonCode env (runs a) InstallScript = Inl e"
    using that by (simp add: initialize_def Let_def setupMCPServers_def run_def)
  have config: "fst (initialize env a) = Inl initialization_failed"
    if "create env (creates a) = Inr (Sandbox sid)"
      and "runPythonCode env (runs a) InstallScript = Inr res"
      and "runPythonCode env (Suc (runs a)) (ConfigScript (githubToken a)) = Inl e"
    using that by (simp add: initialize_def Let_def setupMCPServers_def run_def)
  have workspace: "fst (analyzeWithMCP env ctx a) = Inl e"
    if en: "ensure_sandbox env a = (Inr u, a1)"
      and "runPythonCode env (runs a1) (SetupScript (workspace_files ctx)) = Inl e"
  proof -
    from ensure_sandbox_success [OF en] obtain sid' where "sandbox a1 = Some sid'" by auto
    with that show ?thesis
      by (simp add: analyzeWithMCP_def setupWorkspace_def run_def)
  qed
  have analysis: "fst (analyzeWithMCP env ctx a) = Inr []"
    if en: "ensure_sandbox env a = (Inr u, a1)"
      and "runPythonCode env (runs a1) (SetupScript (workspace_files ctx)) = Inr res"
      and "runPythonCode env (Suc (runs a1)) AnalysisScript = Inl e"
  proof -
    from ensure_sandbox_success [OF en] obtain sid' where "sandbox a1 = Some sid'" by auto
    with that show ?thesis
      by (simp add: analyzeWithMCP_def setupWorkspace_def runAnalysis_def run_def)
  qed
  have c1: "sandbox a = None \<and> fst (initialize env a) = Inl e
      \<longrightarrow> e = initialization_failed \<and> fst (analyzeWithMCP env ctx a) = Inl e"
    using init by blast
  have c2: "sandbox a = None \<and> create env (creates a) = Inl e
      \<longrightarrow> fst (initialize env a) = Inl initialization_failed
          \<and> fst (analyzeWithMCP env ctx a) = Inl initialization_failed"
    using init rejected by blast
  have c3: "sandbox a = None \<and> create env (creates a) = Inr Malformed
      \<longrightarrow> fst (initialize env a) = Inl initialization_failed
          \<and> fst (analyzeWithMCP env ctx a) = Inl initialization_failed"
    using init malformed by blast
  have c4: "sandbox a = None \<and> create env (creates a) = Inr (Sandbox sid)
        \<and> runPythonCode env (runs a) InstallScript = Inl e
      \<longrightarrow> fst (initialize env a) = Inl initialization_failed
          \<and> fst (analyzeWithMCP env ctx a) = Inl initialization_failed"
    using init install by blast
  have c5: "sandbox a = None \<and> create env (creates a) = Inr (Sandbox sid)
        \<and> runPythonCode env (runs a) InstallScript = Inr res
        \<and> runPythonCode env (Suc (runs a)) (ConfigScript (githubToken a)) = Inl e
      \<longrightarrow> fst (initialize env a) = Inl initialization_failed
          \<and> fst (analyzeWithMCP env ctx a) = Inl initialization_failed"
    using init config by blast
  have c6: "ensure_sandbox env a = (Inr u, a1)
        \<and> runPythonCode env (runs a1) (SetupScript (workspace_files ctx)) = Inl e
      \<longrightarrow> fst (analyzeWithMCP env ctx a) = Inl e"
    using workspace by blast
  have c7: "ensure_sandbox env a = (Inr u, a1)
        \<and> runPythonCode env (runs a1) (SetupScript (workspace_files ctx)) = Inr res
        \<and> runPythonCode env (Suc (runs a1)) AnalysisScript = Inl e
      \<longrightarrow> fst (analyzeWithMCP env ctx a) = Inr []"
    using analysis by blast
  from c1 c2 c3 c4 c5 c6 c7 show ?thesis by (intro conjI)
qed

text \<open>
  A new agent whose \<^verbatim>\<open>create\<close> is rejected, one whose \<^verbatim>\<open>create\<close> returns an object that
  is not a sandbox, one whose install script is rejected and one whose configuration script
  is rejected; an agent that holds a sandbox whose workspace script is rejected, and one whose
  analysis script is rejected.
\<close>

theorem analyzeWithMCP_failures_witness:
  "fst (analyzeWithMCP (scripted_env False (\<lambda>s. False) ''ok'' True None) empty_context
          (new_agent ''token'')) = Inl initialization_failed
   \<and> fst (initialize malformed_env (new_agent ''token'')) = Inl initialization_failed
   \<and> fst (analyzeWithMCP malformed_env empty_context (new_agent ''token''))
        = Inl initialization_failed
   \<and> fst (initialize (scripted_env True (\<lambda>s. s = InstallScript) ''ok'' True None)
          (new_agent ''token'')) = Inl initialization_failed
   \<and> fst (analyzeWithMCP (scripted_env True (\<lambda>s. s = InstallScript) ''ok'' True None)
          empty_context (new_agent ''token'')) = Inl initialization_failed
   \<and> fst (initialize (scripted_env True (\<lambda>s. s = ConfigScript ''token'') ''ok'' True None)
          (new_agent ''token'')) = Inl initialization_failed
   \<and> fst (analyzeWithMCP (scripted_env True (\<lambda>s. s = ConfigScript ''token'') ''ok'' True None)
          empty_context (new_agent ''token'')) = Inl initialization_failed
   \<and> fst (analyzeWithMCP (scripted_env True (\<lambda>s. s = SetupScript []) ''ok'' True None)
          empty_context running_agent) = Inl sandbox_error
   \<and> fst (analyzeWithMCP (scripted_env True (\<lambda>s. s = AnalysisScript) ''ok'' True None)
          empty_context running_agent) = Inr []"
proof -
  let ?down = "scripted_env False (\<lambda>s. False) ''ok'' True None"
  let ?install = "scripted_env True (\<lambda>s. s = InstallScript) ''ok'' True None"
  let ?config = "scripted_env True (\<lambda>s. s = ConfigScript ''token'') ''ok'' True None"
  let ?workspace = "scripted_env True (\<lambda>s. s = SetupScript []) ''ok'' True None"
  let ?analysis = "scripted_env True (\<lambda>s. s = AnalysisScript) ''ok'' True None"
  have fresh: "sandbox (new_agent ''token'') = None"
    by (simp add: new_agent_def)
  have d1: "create ?down (creates (new_agent ''token'')) = Inl service_down"
    by (simp add: scripted_env_def)
  have 1: "fst (analyzeWithMCP ?down empty_context (new_agent ''token'')) = Inl initialization_failed"
    using analyzeWithMCP_failures [where a = "new_agent ''token''" and env = ?down
        and e = service_down and ctx = empty_context] fresh d1
    by blast
  have m1: "create malformed_env (creates (new_agent ''token'')) = Inr Malformed"
    by (simp add: malformed_env_def)
  have 2: "fst (initialize malformed_env (new_agent ''token'')) = Inl initialization_failed
      \<and> fst (analyzeWithMCP malformed_env empty_context (new_agent ''token''))
          = Inl initialization_failed"
    using analyzeWithMCP_failures [where a = "new_agent ''token''" and env = malformed_env
        and ctx = empty_context] fresh m1
    by blast
  have i1: "create ?install (creates (new_agent ''token'')) = Inr (Sandbox ''sandbox-1'')"
    and i2: "runPythonCode ?install (runs (new_agent ''token'')) InstallScript = Inl sandbox_error"
    by (simp_all add: scripted_env_def)
  have 3: "fst (initialize ?install (new_agent ''token'')) = Inl initialization_failed
      \<and> fst (analyzeWithMCP ?install empty_context (new_agent ''token''))
          = Inl initialization_failed"
    using analyzeWithMCP_failures [where a = "new_agent ''token''" and env = ?install
        and e = sandbox_error and sid = "''sandbox-1''" and ctx = empty_context] fresh i1 i2
    by blast
  have g1: "create ?config (creates (new_agent ''token'')) = Inr (Sandbox ''sandbox-1'')"
    and g2: "runPythonCode ?config (runs (new_agent ''token'')) InstallScript
        = Inr (ResultObject (Some ''ok'') None)"
    and g3: "runPythonCode ?config (Suc (runs (new_agent ''token'')))
        (ConfigScript (githubToken (new_agent ''token''))) = Inl sandbox_error"
    by (simp_all add: scripted_env_def new_agent_def)
  have 4: "fst (initialize ?config (new_agent ''token'')) = Inl initialization_failed
      \<and> fst (analyzeWithMCP ?config empty_context (new_agent ''token''))
          = Inl initialization_failed"
    using analyzeWithMCP_failures [where a = "new_agent ''token''" and env = ?config
        and e = sandbox_error and sid = "''sandbox-1''" and ctx = empty_context
        and res = "ResultObject (Some ''ok'') None"] fresh g1 g2 g3
    by blast
  have en: "ensure_sandbox env running_agent = (Inr (), running_agent)" for env
    by (simp add: ensure_sandbox_def running_agent_def)
  have w1: "runPythonCode ?workspace (runs running_agent) (SetupScript (workspace_files empty_context))
      = Inl sandbox_error"
    by (simp add: scripted_env_def workspace_files_def empty_context_def)
  have 5: "fst (analyzeWithMCP ?workspace empty_context running_agent) = Inl sandbox_error"
    using analyzeWithMCP_failures [where a = running_agent and env = ?workspace
        and e = sandbox_error and ctx = empty_context and u = "()" and ?a1.0 = running_agent] en w1
    by blast
  have a1: "runPythonCode ?analysis (runs running_agent) (SetupScript (workspace_files empty_context))
      = Inr (ResultObject (Some ''ok'') None)"
    and a2: "runPythonCode ?analysis (Suc (runs running_agent)) AnalysisScript = Inl sandbox_error"
    by (simp_all add: scripted_env_def)
  have 6: "fst (analyzeWithMCP ?analysis empty_context running_agent) = Inr []"
    using analyzeWithMCP_failures [where a = running_agent and env = ?analysis
        and e = sandbox_error and ctx = empty_context and u = "()" and ?a1.0 = running_agent
        and res = "ResultObject (Some ''ok'') None"] en a1 a2
    by blast
  from 1 2 3 4 5 6 show ?thesis by blast
qed

text \<open>
  Claim C7 as stated fails: a new agent gets its sandbox, the two set-up scripts and the
  workspace script run, the fourth call of \<^verbatim>\<open>runPythonCode\<close> (the analysis script) is
  rejected, and \<^verbatim>\<open>analyzeWithMCP\<close> resolves with an empty list.
\<close>

theorem analyzeWithMCP_swallows_script_failure:
  "runPythonCode (scripted_env True (\<lambda>s. s = AnalysisScript) ''ok'' True None) 3 AnalysisScript
     = Inl sandbox_error
   \<and> fst (analyzeWithMCP (scripted_env True (\<lambda>s. s = AnalysisScript) ''ok'' True None)
            empty_context (new_agent ''token'')) = Inr []
   \<and> runs (snd (analyzeWithMCP (scripted_env True (\<lambda>s. s = AnalysisScript) ''ok'' True None)
            empty_context (new_agent ''token''))) = 4"
  by (simp add: agent_eval)

text \<open>
  Claim C8. \<^verbatim>\<open>parseAnalysisOutput\<close> never raises: for every output text it returns a
  list. When it finds no embedded JSON object with a \<^verbatim>\<open>findings\<close> array, the list is
  empty; that is so for the empty text, for a text the pattern does not match, for a match
  that \<^verbatim>\<open>JSON.parse\<close> rejects, and for a parsed object without a \<^verbatim>\<open>findings\<close>
  property.
\<close>

theorem parseAnalysisOutput_degrades:
  "(\<exists>fs a1. parseAnalysisOutput env out a = (Inr fs, a1))
   \<and> (\<not> has_findings_array env out \<longrightarrow> fst (parseAnalysisOutput env out a) = Inr [])
   \<and> \<not> has_findings_array env []
   \<and> (findings_match out = None \<longrightarrow> \<not> has_findings_array env out)
   \<and> (findings_match out = Some matched \<and> JSON_parse env matched = None
        \<longrightarrow> \<not> has_findings_array env out)
   \<and> (findings_match out = Some matched \<and> JSON_parse env matched = Some parsed
        \<and> property_of parsed ''findings'' = None
        \<longrightarrow> \<not> has_findings_array env out)"
  using parseAnalysisOutput_total [of env out a] parseAnalysisOutput_none [of env out a]
  by (simp add: has_findings_array_def findings_match_empty)


text \<open>
  A text with no brace at all; a text the pattern matches but that is not JSON; and the same
  text when the parser is made to return an object that has no \<^verbatim>\<open>findings\<close>.
\<close>

theorem parseAnalysisOutput_degrades_witness:
  "\<not> has_findings_array (scripted_env True (\<lambda>s. False) [] True None) ''Traceback: scanner crashed''
   \<and> fst (parseAnalysisOutput (scripted_env True (\<lambda>s. False) [] True None)
        ''Traceback: scanner crashed'' running_agent) = Inr []
   \<and> findings_match (''{'' @ findings_key @ '': oops}'') = Some (''{'' @ findings_key @ '': oops}'')
   \<and> fst (parseAnalysisOutput (scripted_env True (\<lambda>s. False) [] True None)
        (''{'' @ findings_key @ '': oops}'') running_agent) = Inr []
   \<and> property_of (JsonObject [(''results'', JsonArray [])]) ''findings'' = None
   \<and> fst (parseAnalysisOutput
        (scripted_env True (\<lambda>s. False) [] True (Some (JsonObject [(''results'', JsonArray [])])))
        (''{'' @ findings_key @ '': oops}'') running_agent) = Inr []"
proof -
  let ?env = "scripted_env True (\<lambda>s. False) [] True None"
  let ?env2 = "scripted_env True (\<lambda>s. False) [] True (Some (JsonObject [(''results'', JsonArray [])]))"
  let ?out = "''{'' @ findings_key @ '': oops}''"
  have m1: "findings_match ''Traceback: scanner crashed'' = None"
    by (simp add: findings_match_def)
  have m2: "findings_match ?out = Some ?out"
    by (simp add: findings_match_def findings_key_def up_to_last_def)
  have p1: "JSON_parse ?env ?out = None"
    by (simp add: scripted_env_def)
  have p2: "JSON_parse ?env2 ?out = Some (JsonObject [(''results'', JsonArray [])])"
    by (simp add: scripted_env_def)
  have p3: "property_of (JsonObject [(''results'', JsonArray [])]) ''findings'' = None"
    by (simp add: property_of_def)
  note t1 = parseAnalysisOutput_degrades [where env = ?env and out = "''Traceback: scanner crashed''"
      and a = running_agent]
  note t2 = parseAnalysisOutput_degrades [where env = ?env and out = ?out and matched = ?out
      and a = running_agent]
  note t3 = parseAnalysisOutput_degrades [where env = ?env2 and out = ?out and matched = ?out
      and parsed = "JsonObject [(''results'', JsonArray [])]" and a = running_agent]
  from t1 m1 have 1: "\<not> has_findings_array ?env ''Traceback: scanner crashed''"
    and 2: "fst (parseAnalysisOutput ?env ''Traceback: scanner crashed'' running_agent) = Inr []"
    by blast+
  from t2 m2 p1 have 3: "fst (parseAnalysisOutput ?env ?out running_agent) = Inr []" by blast
  from t3 m2 p2 p3 have 4: "fst (parseAnalysisOutput ?env2 ?out running_agent) = Inr []" by blast
  from 1 2 m2 3 p3 4 show ?thesis by blast
qed

text \<open>
  Claim C9. \<^verbatim>\<open>cleanup\<close> never propagates an error: every call resolves, and so does each
  of any number of calls in a row. Without a sandbox it changes nothing. Once a call has left
  the agent without a sandbox, a further call changes nothing; and a second call leaves the
  sandbox field as the first did whenever \<^verbatim>\<open>kill\<close> answers it as it answered the first.
  When \<^verbatim>\<open>kill\<close> resolves the sandbox is dropped; when it rejects the error is logged,
  the sandbox is kept and the call still resolves.
\<close>

theorem cleanup_never_throws:
  "fst (cleanup env a) = Inr ()
   \<and> fst (cleanups env n a) = replicate n (Inr ())
   \<and> (sandbox a = None \<longrightarrow> cleanup env a = (Inr (), a))
   \<and> (sandbox (snd (cleanup env a)) = None
        \<longrightarrow> cleanup env (snd (cleanup env a)) = (Inr (), snd (cleanup env a)))
   \<and> (kill env (Suc (kills a)) = kill env (kills a)
        \<longrightarrow> sandbox (snd (cleanup env (snd (cleanup env a)))) = sandbox (snd (cleanup env a)))
   \<and> (sandbox a = Some sid \<and> kill env (kills a) = Inr ()
        \<longrightarrow> cleanup env a = (Inr (), a\<lparr>kills := Suc (kills a), sandbox := None\<rparr>))
   \<and> (sandbox a = Some sid \<and> kill env (kills a) = Inl e
        \<longrightarrow> cleanup env a
              = (Inr (), a\<lparr>kills := Suc (kills a),
                            logged := logged a @ [LogError ''Error cleaning up sandbox:'' e]\<rparr>))"
  using cleanup_result [of env a] cleanups_never_throw [of env n a]
    cleanup_without_sandbox [of a env] cleanup_without_sandbox [of "snd (cleanup env a)" env]
    cleanup_twice [of env a]
  by (simp add: cleanup_def log_error_def)

text \<open>
  An agent that never had a sandbox; a running agent whose sandbox is killed, and cleaned up
  once more; and a running agent whose sandbox cannot be killed, cleaned up once, twice and
  three times.
\<close>

theorem cleanup_never_throws_witness:
  "cleanup (scripted_env True (\<lambda>s. False) [] True None) (new_agent ''token'')
     = (Inr (), new_agent ''token'')
   \<and> cleanup (scripted_env True (\<lambda>s. False) [] True None) running_agent
     = (Inr (), running_agent\<lparr>kills := 1, sandbox := None\<rparr>)
   \<and> cleanup (scripted_env True (\<lambda>s. False) [] True None)
        (snd (cleanup (scripted_env True (\<lambda>s. False) [] True None) running_agent))
     = (Inr (), running_agent\<lparr>kills := 1, sandbox := None\<rparr>)
   \<and> cleanup (scripted_env True (\<lambda>s. False) [] False None) running_agent
     = (Inr (), running_agent\<lparr>kills := 1,
                  logged := [LogError ''Error cleaning up sandbox:'' sandbox_error]\<rparr>)
   \<and> sandbox (snd (cleanup (scripted_env True (\<lambda>s. False) [] False None)
        (snd (cleanup (scripted_env True (\<lambda>s. False) [] False None) running_agent))))
     = Some ''sandbox-1''
   \<and> fst (cleanups (scripted_env True (\<lambda>s. False) [] False None) 3 running_agent)
     = [Inr (), Inr (), Inr ()]"
proof -
  let ?ok = "scripted_env True (\<lambda>s. False) [] True None"
  let ?bad = "scripted_env True (\<lambda>s. False) [] False None"
  have n: "sandbox (new_agent ''token'') = None" by (simp add: new_agent_def)
  have s: "sandbox running_agent = Some ''sandbox-1''" by (simp add: running_agent_def)
  have k: "kills running_agent = 0" "logged running_agent = []"
    by (simp_all add: running_agent_def new_agent_def)
  have kok: "kill ?ok (kills running_agent) = Inr ()"
    and kbad: "kill ?bad (kills running_agent) = Inl sandbox_error"
    by (simp_all add: scripted_env_def)
  have 1: "cleanup ?ok (new_agent ''token'') = (Inr (), new_agent ''token'')"
    using cleanup_never_throws [where env = ?ok and a = "new_agent ''token''"] n by blast
  have 2: "cleanup ?ok running_agent = (Inr (), running_agent\<lparr>kills := 1, sandbox := None\<rparr>)"
    using cleanup_never_throws [where env = ?ok and a = running_agent and sid = "''sandbox-1''"]
      s kok k by simp
  have 3: "cleanup ?ok (snd (cleanup ?ok running_agent))
      = (Inr (), running_agent\<lparr>kills := 1, sandbox := None\<rparr>)"
    using cleanup_never_throws [where env = ?ok and a = running_agent] 2 by simp
  have 4: "cleanup ?bad running_agent
      = (Inr (), running_agent\<lparr>kills := 1,
                   logged := [LogError ''Error cleaning up sandbox:'' sandbox_error]\<rparr>)"
    using cleanup_never_throws [where env = ?bad and a = running_agent and sid = "''sandbox-1''"
        and e = sandbox_error] s kbad k by simp
  have 5: "fst (cleanups ?bad 3 running_agent) = [Inr (), Inr (), Inr ()]"
    using cleanup_never_throws [where env = ?bad and a = running_agent and n = 3]
    by (simp add: numeral_3_eq_3)
  have same: "kill ?bad (Suc (kills running_agent)) = kill ?bad (kills running_agent)"
    by (simp add: scripted_env_def)
  have 6: "sandbox (snd (cleanup ?bad (snd (cleanup ?bad running_agent)))) = Some ''sandbox-1''"
    using cleanup_never_throws [where env = ?bad and a = running_agent] same 4 s by simp
  from 1 2 3 4 5 6 show ?thesis by blast
qed

text \<open>
  Claim C10. Once the agent has its sandbox, \<^verbatim>\<open>fetchFileFromGitHub\<close> returns
  \<^verbatim>\<open>null\<close> whenever the text the sandbox returned contains \<^verbatim>\<open>error\<close> anywhere, and
  returns \<^verbatim>\<open>null\<close>, not an error, when the sandbox call is rejected; only a text
  without \<^verbatim>\<open>error\<close> is returned. So a failed fetch and a fetched file whose content
  mentions \<^verbatim>\<open>error\<close> give the caller the same answer.
\<close>

theorem fetch_null_on_error:
  "(ensure_sandbox env a = (Inr u, a1)
      \<and> runPythonCode env (runs a1) (FetchScript owner repo path (str_or_null ref)) = Inr res
      \<and> js_includes (output_of res) ''error''
      \<longrightarrow> fst (fetchFileFromGitHub env owner repo path ref a) = Inr None)
   \<and> (ensure_sandbox env a = (Inr u, a1)
      \<and> runPythonCode env (runs a1) (FetchScript owner repo path (str_or_null ref)) = Inl e
      \<longrightarrow> fst (fetchFileFromGitHub env owner repo path ref a) = Inr None)
   \<and> (ensure_sandbox env a = (Inr u, a1)
      \<and> runPythonCode env (runs a1) (FetchScript owner repo path (str_or_null ref)) = Inr res
      \<and> \<not> js_includes (output_of res) ''error''
      \<longrightarrow> fst (fetchFileFromGitHub env owner repo path ref a) = Inr (Some (output_of res)))
   \<and> (js_includes s ''error'' \<longleftrightarrow> (\<exists>before after. s = before @ ''error'' @ after))"
  using fetch_after_ensure [of env a u a1 owner repo path ref] js_includes_iff [of s "''error''"]
  by auto

text \<open>
  The script reports a failure; the fetched file contains \<^verbatim>\<open>console.error\<close>; the sandbox
  call is rejected: \<^verbatim>\<open>null\<close> each time. A file without the word is returned.
\<close>

theorem fetch_null_on_error_witness:
  "fst (fetchFileFromGitHub (scripted_env True (\<lambda>s. False) fetch_failed_output True None)
          ''owner'' ''repo'' ''missing.js'' Undefined running_agent) = Inr None
   \<and> js_includes source_with_error ''error''
   \<and> fst (fetchFileFromGitHub (scripted_env True (\<lambda>s. False) source_with_error True None)
          ''owner'' ''repo'' ''src/app.js'' Undefined running_agent) = Inr None
   \<and> fst (fetchFileFromGitHub (scripted_env True (\<lambda>s. True) [] True None)
          ''owner'' ''repo'' ''src/app.js'' Undefined running_agent) = Inr None
   \<and> fst (fetchFileFromGitHub (scripted_env True (\<lambda>s. False) ''const x = 1'' True None)
          ''owner'' ''repo'' ''src/app.js'' Undefined running_agent) = Inr (Some ''const x = 1'')"
proof -
  let ?failed = "scripted_env True (\<lambda>s. False) fetch_failed_output True None"
  let ?content = "scripted_env True (\<lambda>s. False) source_with_error True None"
  let ?rejects = "scripted_env True (\<lambda>s. True) [] True None"
  let ?clean = "scripted_env True (\<lambda>s. False) ''const x = 1'' True None"
  have en: "ensure_sandbox env running_agent = (Inr (), running_agent)" for env
    by (simp add: ensure_sandbox_def running_agent_def)
  have r1: "runPythonCode ?failed (runs running_agent)
      (FetchScript ''owner'' ''repo'' ''missing.js'' (str_or_null Undefined))
        = Inr (ResultObject (Some fetch_failed_output) None)"
    by (simp add: scripted_env_def)
  have o1: "js_includes (output_of (ResultObject (Some fetch_failed_output) None)) ''error''"
    by (simp add: output_of_def fetch_failed_output_def)
  have r2: "runPythonCode ?content (runs running_agent)
      (FetchScript ''owner'' ''repo'' ''src/app.js'' (str_or_null Undefined))
        = Inr (ResultObject (Some source_with_error) None)"
    by (simp add: scripted_env_def)
  have i2: "js_includes source_with_error ''error''"
    by (simp add: source_with_error_def)
  then have o2: "js_includes (output_of (ResultObject (Some source_with_error) None)) ''error''"
    by (simp add: output_of_def source_with_error_def)
  have r3: "runPythonCode ?rejects (runs running_agent)
      (FetchScript ''owner'' ''repo'' ''src/app.js'' (str_or_null Undefined)) = Inl sandbox_error"
    by (simp add: scripted_env_def)
  have r4: "runPythonCode ?clean (runs running_agent)
      (FetchScript ''owner'' ''repo'' ''src/app.js'' (str_or_null Undefined))
        = Inr (ResultObject (Some ''const x = 1'') None)"
    by (simp add: scripted_env_def)
  have o4: "\<not> js_includes (output_of (ResultObject (Some ''const x = 1'') None)) ''error''"
    and v4: "output_of (ResultObject (Some ''const x = 1'') None) = ''const x = 1''"
    by (simp_all add: output_of_def)
  have 1: "fst (fetchFileFromGitHub ?failed ''owner'' ''repo'' ''missing.js'' Undefined running_agent)
      = Inr None"
    using fetch_null_on_error [where env = ?failed and a = running_agent and u = "()"
        and ?a1.0 = running_agent and owner = "''owner''" and repo = "''repo''"
        and path = "''missing.js''" and ref = Undefined
        and res = "ResultObject (Some fetch_failed_output) None"] en r1 o1
    by blast
  have 2: "fst (fetchFileFromGitHub ?content ''owner'' ''repo'' ''src/app.js'' Undefined running_agent)
      = Inr None"
    using fetch_null_on_error [where env = ?content and a = running_agent and u = "()"
        and ?a1.0 = running_agent and owner = "''owner''" and repo = "''repo''"
        and path = "''src/app.js''" and ref = Undefined
        and res = "ResultObject (Some source_with_error) None"] en r2 o2
    by blast
  have 3: "fst (fetchFileFromGitHub ?rejects ''owner'' ''repo'' ''src/app.js'' Undefined running_agent)
      = Inr None"
    using fetch_null_on_error [where env = ?rejects and a = running_agent and u = "()"
        and ?a1.0 = running_agent and owner = "''owner''" and repo = "''repo''"
        and path = "''src/app.js''" and ref = Undefined and e = sandbox_error] en r3
    by blast
  have 4: "fst (fetchFileFromGitHub ?clean ''owner'' ''repo'' ''src/app.js'' Undefined running_agent)
      = Inr (Some ''const x = 1'')"
    using fetch_null_on_error [where env = ?clean and a = running_agent and u = "()"
        and ?a1.0 = running_agent and owner = "''owner''" and repo = "''repo''"
        and path = "''src/app.js''" and ref = Undefined
        and res = "ResultObject (Some ''const x = 1'') None"] en r4 o4 v4
    by (simp only:) blast
  from 1 i2 2 3 4 show ?thesis by blast
qed


end
